theory Spec2Isabelle
  imports Complex_Main
begin

section \<open>The connection pool of arangojs (connection.ts)\<close>

text \<open>
  The development embeds the class \<open>Connection\<close> of the driver: the list of hosts, the
  queue of tasks, the choice of a host for each task, the callback that a transport
  calls with its outcome, the building of a task by \<open>request\<close> and the interpretation
  of a response. Objects that the class mutates are records that the functions return
  updated. JavaScript numbers that index the host list are natural numbers; the other
  numbers are integers.
\<close>

subsection \<open>Values of the language and of the imported modules\<close>

text \<open>
  A value as \<open>JSON.parse\<close> returns it; numbers are kept as integers, the claims under
  study look at the keys of objects only.
\<close>

datatype json =
    JNull
  | JBool bool
  | JNum int
  | JStr string
  | JArr "json list"
  | JObj "(string \<times> json) list"

text \<open>Truthiness of a value, as \<open>if (body)\<close> tests it.\<close>

fun truthy :: "json \<Rightarrow> bool" where
  "truthy JNull = False"
| "truthy (JBool b) = b"
| "truthy (JNum n) = (n \<noteq> 0)"
| "truthy (JStr s) = (s \<noteq> [])"
| "truthy (JArr xs) = True"
| "truthy (JObj kvs) = True"

text \<open>\<open>typeof v === "object"\<close>.\<close>

fun typeof_object :: "json \<Rightarrow> bool" where
  "typeof_object JNull = True"
| "typeof_object (JArr xs) = True"
| "typeof_object (JObj kvs) = True"
| "typeof_object v = False"

type_synonym Headers = "string \<rightharpoonup> string"

text \<open>
  What the class takes from outside connection.ts: the sanitizer of URLs, the flag
  \<open>isBrowser\<close>, and the built-in functions \<open>JSON.parse\<close> (\<open>None\<close> when it throws),
  \<open>JSON.stringify\<close>, \<open>String\<close> and \<open>querystring.stringify\<close>.
\<close>

record Env =
  sanitizeUrl :: "string \<Rightarrow> string"
  isBrowser :: bool
  JSON_parse :: "string \<Rightarrow> json option"
  JSON_stringify :: "json \<Rightarrow> string"
  toString :: "json \<Rightarrow> string"
  querystringify :: "(string \<times> json) list \<Rightarrow> string"

text \<open>
  Modelled from the spec: the errors of error.ts, which is not among the sources. A
  transport error is either a system-level error, carrying a syscall name and an error
  code, or another error; \<open>isSystemError\<close> tells them apart. The other error also stands
  for the \<open>TypeError\<close> that JavaScript throws at a call of something that is no function.
\<close>

datatype Error = SystemError string string | OtherError

fun isSystemError :: "Error \<Rightarrow> bool" where
  "isSystemError (SystemError s c) = True"
| "isSystemError OtherError = False"

text \<open>
  \<open>v.hasOwnProperty(k)\<close> for a string \<open>k\<close> that is neither \<open>length\<close> nor an index. The
  method is looked up on the value itself: an object that has an own property named
  \<open>hasOwnProperty\<close> gives that property, a value of JSON and no function, and the call
  throws a \<open>TypeError\<close>. Every other value inherits the method of \<open>Object.prototype\<close>, and
  only an object can have the property \<open>k\<close>.
\<close>

fun hasOwnProperty :: "json \<Rightarrow> string \<Rightarrow> Error + bool" where
  "hasOwnProperty (JObj kvs) k =
     (if ''hasOwnProperty'' \<in> set (map fst kvs) then Inl OtherError
      else Inr (k \<in> set (map fst kvs)))"
| "hasOwnProperty v k = Inr False"

text \<open>
  \<open>a && b\<close> for two tests that may throw: \<open>b\<close> is evaluated only when \<open>a\<close> is true.
\<close>

definition js_and :: "Error + bool \<Rightarrow> Error + bool \<Rightarrow> Error + bool" where
  "js_and a b = (case a of Inl e \<Rightarrow> Inl e | Inr x \<Rightarrow> if x then b else Inr False)"

text \<open>The transport of one URL, as \<open>createRequest\<close> of lib/request makes it.\<close>

datatype RequestFunction = createRequest string

subsection \<open>Tasks, responses and the connection\<close>

datatype LoadBalancingStrategy = NONE | ROUND_ROBIN | ONE_RANDOM

record Url =
  pathname :: string
  search :: "string option"

text \<open>The body of a task: the text that \<open>request\<close> made of it, or the value left as it was.\<close>

datatype Payload = Serialized string | Untouched "json option"

record TaskOptions =
  req_method :: string
  expectBinary :: bool
  timeout :: int
  url :: Url
  headers :: Headers
  body :: Payload

record Task =
  host :: "nat option"
  allowDirtyRead :: bool
  retries :: int
  options :: TaskOptions

text \<open>
  The body of a response: the bytes the transport read, their decoding as UTF-8 text
  (\<open>toString("utf-8")\<close>, written \<open>Text\<close> over the same bytes), or the parsed value.
\<close>

datatype Body = Raw string | Text string | Parsed json

text \<open>
  A response. The transport gives it with the bytes as body (\<open>string Response\<close>); the
  interpreter of \<open>request\<close> stores the interpreted body in it (\<open>Body Response\<close>).
\<close>

record 'b Response =
  statusCode :: "nat option"
  res_headers :: Headers
  res_body :: 'b
  arangojsHostId :: "nat option"

definition with_body :: "'a Response \<Rightarrow> 'b \<Rightarrow> 'b Response" where
  "with_body res b =
     \<lparr>statusCode = statusCode res, res_headers = res_headers res, res_body = b,
      arangojsHostId = arangojsHostId res\<rparr>"

datatype Outcome = Err Error | Res "string Response"

text \<open>
  How the promise of a task ends: \<open>reject\<close> with the transport error, with the parse
  error, with an \<open>ArangoError\<close> or an \<open>HttpError\<close> made from the response, or \<open>resolve\<close>
  with the response (given to the caller's \<open>transform\<close> when there is one).
\<close>

datatype Settlement =
    RejectTransport Error
  | RejectParse "Body Response"
  | RejectArango "Body Response"
  | RejectHttp "Body Response"
  | Fulfil "Body Response"

text \<open>
  What the connection does to the outside: a call of a transport, the end of a promise,
  and an exception that leaves the callback of a task, to the transport that called it.
\<close>

datatype Effect = Sent Task nat | Settled Task Settlement | Uncaught Task Error

text \<open>
  The fields of the class, without the cache of databases and the agent. The last two
  fields are the outside of the connection: the transports that hold a callback they
  have not called yet (with the task and the host the callback closes over), and the
  effects so far.
\<close>

record Connection =
  activeTasks :: int
  arangoVersion :: int
  conn_headers :: Headers
  loadBalancingStrategy :: LoadBalancingStrategy
  useFailOver :: bool
  shouldRetry :: bool
  maxRetries :: int
  maxTasks :: int
  queue :: "Task list"
  hosts :: "RequestFunction list"
  urls :: "string list"
  activeHost :: nat
  activeDirtyHost :: nat
  transactionId :: "string option"
  inflight :: "(Task \<times> nat) list"
  trace :: "Effect list"

subsection \<open>The host list\<close>

text \<open>\<open>Array.prototype.indexOf\<close>: the first index of the element, \<open>-1\<close> when absent.\<close>

fun indexOf :: "'a list \<Rightarrow> 'a \<Rightarrow> int" where
  "indexOf [] x = - 1"
| "indexOf (y # ys) x =
     (if y = x then 0
      else (let i = indexOf ys x in if i = - 1 then - 1 else i + 1))"

definition addToHostList :: "Env \<Rightarrow> string list \<Rightarrow> Connection \<Rightarrow> int list \<times> Connection" where
  "addToHostList env us c =
     (let cleanUrls = map (sanitizeUrl env) us;
          newUrls = filter (\<lambda>u. indexOf (urls c) u = - 1) cleanUrls;
          c' = c\<lparr>urls := urls c @ newUrls,
                 hosts := hosts c @ map createRequest newUrls\<rparr>
      in (map (\<lambda>u. indexOf (urls c') u) cleanUrls, c'))"

subsection \<open>The constructor\<close>

record AgentOptions =
  maxSockets :: "nat option"
  keepAlive :: "bool option"

datatype MaxRetriesConfig = RetriesFalse | RetriesNumber int

datatype UrlConfig = OneUrl string | ManyUrls "string list"

record Config =
  cfg_arangoVersion :: "int option"
  cfg_agentOptions :: "AgentOptions option"
  cfg_headers :: "Headers option"
  cfg_loadBalancingStrategy :: "LoadBalancingStrategy option"
  cfg_maxRetries :: "MaxRetriesConfig option"
  cfg_url :: "UrlConfig option"

text \<open>
  \<open>this._agentOptions\<close>: in a browser the options of the configuration alone, elsewhere
  the defaults \<open>maxSockets: 3, keepAlive: true\<close> under them.
\<close>

definition agentOptions_of :: "Env \<Rightarrow> Config \<Rightarrow> AgentOptions" where
  "agentOptions_of env cfg =
     (let given = (case cfg_agentOptions cfg of
                     None \<Rightarrow> \<lparr>maxSockets = None, keepAlive = None\<rparr>
                   | Some a \<Rightarrow> a)
      in if isBrowser env then given
         else \<lparr>maxSockets = (case maxSockets given of None \<Rightarrow> Some 3 | Some n \<Rightarrow> Some n),
               keepAlive = (case keepAlive given of None \<Rightarrow> Some True | Some b \<Rightarrow> Some b)\<rparr>)"

definition maxTasks_of :: "AgentOptions \<Rightarrow> int" where
  "maxTasks_of a =
     (let m = (case maxSockets a of None \<Rightarrow> 3 | Some n \<Rightarrow> if n = 0 then 3 else int n)
      in if keepAlive a = Some True then m * 2 else m)"

text \<open>
  The constructor. \<open>u1\<close> and \<open>u2\<close> are the two values of \<open>Math.random()\<close>, in \<open>[0, 1)\<close>,
  that the strategy \<open>ONE_RANDOM\<close> draws.
\<close>

definition new_Connection :: "Env \<Rightarrow> rat \<Rightarrow> rat \<Rightarrow> Config \<Rightarrow> Connection" where
  "new_Connection env u1 u2 cfg =
     (let strategy = (case cfg_loadBalancingStrategy cfg of None \<Rightarrow> NONE | Some s \<Rightarrow> s);
          c0 = \<lparr>activeTasks = 0,
                arangoVersion = (case cfg_arangoVersion cfg of None \<Rightarrow> 30400 | Some v \<Rightarrow> v),
                conn_headers = (case cfg_headers cfg of None \<Rightarrow> Map.empty | Some h \<Rightarrow> h),
                loadBalancingStrategy = strategy,
                useFailOver = (strategy \<noteq> ROUND_ROBIN),
                shouldRetry = (cfg_maxRetries cfg \<noteq> Some RetriesFalse),
                maxRetries = (case cfg_maxRetries cfg of
                                Some (RetriesNumber n) \<Rightarrow> n
                              | _ \<Rightarrow> 0),
                maxTasks = maxTasks_of (agentOptions_of env cfg),
                queue = [],
                hosts = [],
                urls = [],
                activeHost = 0,
                activeDirtyHost = 0,
                transactionId = None,
                inflight = [],
                trace = []\<rparr>;
          us = (case cfg_url cfg of
                  None \<Rightarrow> [''http://localhost:8529'']
                | Some (OneUrl u) \<Rightarrow> if u = [] then [''http://localhost:8529''] else [u]
                | Some (ManyUrls l) \<Rightarrow> l);
          c1 = snd (addToHostList env us c0)
      in if strategy = ONE_RANDOM
         then c1\<lparr>activeHost := nat \<lfloor>u1 * of_nat (length (hosts c1))\<rfloor>,
                 activeDirtyHost := nat \<lfloor>u2 * of_nat (length (hosts c1))\<rfloor>\<rparr>
         else c1)"

subsection \<open>The interpreter of a response (the \<open>resolve\<close> of a task)\<close>

text \<open>\<open>\w\<close> of a regular expression: a letter, a digit or the underscore.\<close>

definition word_char :: "char \<Rightarrow> bool" where
  "word_char ch =
     (let n = (of_char ch :: nat)
      in (48 \<le> n \<and> n \<le> 57) \<or> (65 \<le> n \<and> n \<le> 90) \<or> (97 \<le> n \<and> n \<le> 122) \<or> n = 95)"

text \<open>\<open>(\W|$)\<close> at the start of a text.\<close>

fun boundary :: "string \<Rightarrow> bool" where
  "boundary [] = True"
| "boundary (ch # rest) = (\<not> word_char ch)"

fun strip_prefix :: "string \<Rightarrow> string \<Rightarrow> string option" where
  "strip_prefix [] s = Some s"
| "strip_prefix (p # ps) [] = None"
| "strip_prefix (p # ps) (ch # rest) = (if p = ch then strip_prefix ps rest else None)"

definition mime_here :: "string \<Rightarrow> bool" where
  "mime_here s =
     ((case strip_prefix ''/json'' s of Some r \<Rightarrow> boundary r | None \<Rightarrow> False)
      \<or> (case strip_prefix ''/javascript'' s of Some r \<Rightarrow> boundary r | None \<Rightarrow> False))"

text \<open>\<open>s.match(MIME_JSON)\<close> for \<open>MIME_JSON = /\/(json|javascript)(\W|$)/\<close>: a match at some position.\<close>

fun MIME_JSON :: "string \<Rightarrow> bool" where
  "MIME_JSON [] = mime_here []"
| "MIME_JSON (ch # rest) = (mime_here (ch # rest) \<or> MIME_JSON rest)"

text \<open>
  The test of the error envelope on \<open>parsedBody\<close>, which throws when a call of
  \<open>hasOwnProperty\<close> does. A buffer and a text have none of the four properties.
\<close>

fun is_envelope :: "Body \<Rightarrow> Error + bool" where
  "is_envelope (Parsed v) =
     js_and (Inr (truthy v))
       (js_and (hasOwnProperty v ''error'')
          (js_and (hasOwnProperty v ''code'')
             (js_and (hasOwnProperty v ''errorMessage'') (hasOwnProperty v ''errorNum''))))"
| "is_envelope (Text s) = Inr False"
| "is_envelope (Raw s) = Inr False"

text \<open>
  \<open>parsedBody\<close> after the first statement of \<open>resolve\<close>; \<open>None\<close> when the parse error is
  thrown on (the request did not expect a binary body).
\<close>

definition parsedBody_of :: "Env \<Rightarrow> bool \<Rightarrow> string Response \<Rightarrow> Body option" where
  "parsedBody_of env expectBin res =
     (if res_body res \<noteq> []
         \<and> (case res_headers res ''content-type'' of None \<Rightarrow> False | Some ct \<Rightarrow> MIME_JSON ct)
      then (case JSON_parse env (res_body res) of
              Some v \<Rightarrow> Some (Parsed v)
            | None \<Rightarrow> if \<not> expectBin then None else Some (Raw (res_body res)))
      else if \<not> expectBin then Some (Text (res_body res))
      else Some (Raw (res_body res)))"

text \<open>
  The \<open>resolve\<close> of a task: how it ends the promise, or the error it throws (the one of
  the test of the envelope) without ending it. The \<open>transform\<close> of the caller is not part
  of the model: \<open>Fulfil\<close> is the response that is handed to it, or to the caller.
\<close>

definition resolve :: "Env \<Rightarrow> bool \<Rightarrow> string Response \<Rightarrow> Error + Settlement" where
  "resolve env expectBin res =
     (case parsedBody_of env expectBin res of
        None \<Rightarrow> Inr (RejectParse (with_body res (Raw (res_body res))))
      | Some parsedBody \<Rightarrow>
          (case is_envelope parsedBody of
             Inl e \<Rightarrow> Inl e
           | Inr envelope \<Rightarrow>
               if envelope then Inr (RejectArango (with_body res parsedBody))
               else if (case statusCode res of None \<Rightarrow> False | Some st \<Rightarrow> st \<noteq> 0 \<and> st \<ge> 400)
               then Inr (RejectHttp (with_body res parsedBody))
               else Inr (Fulfil (with_body res
                                   (if \<not> expectBin then parsedBody else Raw (res_body res))))))"

text \<open>
  Modelled from the spec: the fields of an \<open>ArangoError\<close> (error.ts is not among the
  sources), taken from the body of the response it is made from.
\<close>

fun field_of :: "Body \<Rightarrow> string \<Rightarrow> json option" where
  "field_of (Parsed (JObj kvs)) k = map_of kvs k"
| "field_of b k = None"

definition errorNum :: "Body Response \<Rightarrow> json option" where
  "errorNum res = field_of (res_body res) ''errorNum''"

definition errorMessage :: "Body Response \<Rightarrow> json option" where
  "errorMessage res = field_of (res_body res) ''errorMessage''"

definition error_code :: "Body Response \<Rightarrow> json option" where
  "error_code res = field_of (res_body res) ''code''"

subsection \<open>The callback of a transport\<close>

definition LEADER_ENDPOINT_HEADER :: string where
  "LEADER_ENDPOINT_HEADER = ''x-arango-endpoint''"

text \<open>\<open>this._maxRetries || this._hosts.length - 1\<close>.\<close>

definition effectiveMax :: "Connection \<Rightarrow> int" where
  "effectiveMax c = (if maxRetries c \<noteq> 0 then maxRetries c else int (length (hosts c)) - 1)"

text \<open>The condition of the retry; \<open>!task.host\<close> holds of no host and of host \<open>0\<close>.\<close>

definition retryable :: "Connection \<Rightarrow> Task \<Rightarrow> Error \<Rightarrow> bool" where
  "retryable c task err =
     ((host task = None \<or> host task = Some 0)
      \<and> shouldRetry c
      \<and> retries task < effectiveMax c
      \<and> isSystemError err
      \<and> (case err of SystemError sc cd \<Rightarrow> sc = ''connect'' \<and> cd = ''ECONNREFUSED''
          | OtherError \<Rightarrow> False))"

text \<open>
  The URL of the leader that a response names: the status is 503 and the header
  \<open>x-arango-endpoint\<close> is truthy (present and not empty).
\<close>

definition leader_of :: "string Response \<Rightarrow> string option" where
  "leader_of response =
     (if statusCode response = Some 503
      then (case res_headers response LEADER_ENDPOINT_HEADER of
              None \<Rightarrow> None
            | Some u \<Rightarrow> if u = [] then None else Some u)
      else None)"

text \<open>
  \<open>task.resolve(response)\<close> as the callback calls it: the promise ends, or the error that
  \<open>resolve\<close> throws leaves the callback.
\<close>

definition deliver :: "Env \<Rightarrow> Task \<Rightarrow> string Response \<Rightarrow> Effect" where
  "deliver env task response =
     (case resolve env (expectBinary (options task)) response of
        Inr s \<Rightarrow> Settled task s
      | Inl e \<Rightarrow> Uncaught task e)"

text \<open>
  The callback, up to its last statement (the call of \<open>_runQueue\<close>) or up to the
  exception that leaves it. The array that \<open>addToHostList\<close> returns for one URL has one
  element, the index of that URL in the list (\<open>addToHostList_single\<close> below), which the
  destructuring \<open>[index]\<close> takes.
\<close>

definition handle :: "Env \<Rightarrow> Connection \<Rightarrow> Task \<Rightarrow> nat \<Rightarrow> Outcome \<Rightarrow> Connection" where
  "handle env c0 task h outcome =
     (let c = c0\<lparr>activeTasks := activeTasks c0 - 1\<rparr>
      in case outcome of
        Err err \<Rightarrow>
          (let c1 = (if \<not> allowDirtyRead task \<and> length (hosts c) > 1
                        \<and> activeHost c = h \<and> useFailOver c
                     then c\<lparr>activeHost := (activeHost c + 1) mod length (hosts c)\<rparr>
                     else c)
           in if retryable c1 task err
              then c1\<lparr>queue := queue c1 @ [task\<lparr>retries := retries task + 1\<rparr>]\<rparr>
              else c1\<lparr>trace := trace c1 @ [Settled task (RejectTransport err)]\<rparr>)
      | Res response \<Rightarrow>
          (case leader_of response of
             Some leader \<Rightarrow>
               (case addToHostList env [leader] c of (indices, c1) \<Rightarrow>
                  let index = nat (hd indices);
                      task1 = task\<lparr>host := Some index\<rparr>;
                      c2 = (if activeHost c1 = h then c1\<lparr>activeHost := index\<rparr> else c1)
                  in c2\<lparr>queue := queue c2 @ [task1]\<rparr>)
           | None \<Rightarrow>
               c\<lparr>trace := trace c @
                    [deliver env task (response\<lparr>arangojsHostId := Some h\<rparr>)]\<rparr>))"

text \<open>
  Whether an exception leaves the callback. Of the statements of the callback,
  \<open>task.resolve\<close> is the one that can throw by the code of connection.ts (the sanitizer
  and \<open>createRequest\<close>, which \<open>addToHostList\<close> calls, are outside it).
\<close>

definition escapes :: "Env \<Rightarrow> Task \<Rightarrow> nat \<Rightarrow> Outcome \<Rightarrow> bool" where
  "escapes env task h outcome =
     (case outcome of
        Err err \<Rightarrow> False
      | Res response \<Rightarrow>
          (case leader_of response of
             Some leader \<Rightarrow> False
           | None \<Rightarrow>
               isl (resolve env (expectBinary (options task))
                      (response\<lparr>arangojsHostId := Some h\<rparr>))))"

subsection \<open>The queue\<close>

text \<open>
  The choice of the host of a task taken from the queue. The cursors advance modulo the
  number of hosts; with no host at all JavaScript's \<open>%\<close> gives \<open>NaN\<close>, so the properties of
  the cursors below are stated for pools that have a host.
\<close>

definition chooseHost :: "Task \<Rightarrow> Connection \<Rightarrow> nat \<times> Task \<times> Connection" where
  "chooseHost task c =
     (case host task of
        Some th \<Rightarrow> (th, task, c)
      | None \<Rightarrow>
          if allowDirtyRead task
          then (activeDirtyHost c,
                task\<lparr>options := (options task)
                   \<lparr>headers := (headers (options task))(''x-arango-allow-dirty-read'' \<mapsto> ''true'')\<rparr>\<rparr>,
                c\<lparr>activeDirtyHost := (activeDirtyHost c + 1) mod length (hosts c)\<rparr>)
          else if loadBalancingStrategy c = ROUND_ROBIN
          then (activeHost c, task, c\<lparr>activeHost := (activeHost c + 1) mod length (hosts c)\<rparr>)
          else (activeHost c, task, c))"

text \<open>
  \<open>_runQueue\<close> up to the call of the transport: the host, the task and the connection
  with the task taken from the queue and counted as active.
\<close>

definition prepare :: "Task \<Rightarrow> Task list \<Rightarrow> Connection \<Rightarrow> nat \<times> Task \<times> Connection" where
  "prepare task rest c =
     (case chooseHost task (c\<lparr>queue := rest\<rparr>) of
        (h, task1, c1) \<Rightarrow> (h, task1, c1\<lparr>activeTasks := activeTasks c1 + 1\<rparr>))"

lemma queue_chooseHost: "queue (snd (snd (chooseHost task c))) = queue c"
  by (simp add: chooseHost_def split: option.splits)

lemma queue_prepare: "prepare task rest c = (h, task1, c1) \<Longrightarrow> queue c1 = rest"
  using queue_chooseHost [of task "c\<lparr>queue := rest\<rparr>"]
  by (auto simp: prepare_def split: prod.splits)

lemma queue_handle_OtherError: "queue (handle env c task h (Err OtherError)) = queue c"
  by (simp add: handle_def retryable_def Let_def)

text \<open>
  \<open>_runQueue\<close>. A host index outside the list of hosts makes the call of the transport
  throw a \<open>TypeError\<close>, which the \<open>catch\<close> gives to the callback at once; the callback
  ends with a call of \<open>_runQueue\<close>. Otherwise the transport holds the callback, and calls
  it later (event \<open>Complete\<close> below); a transport that throws by itself is a transport
  that calls back with the error before anything else happens.
\<close>

function runQueue :: "Env \<Rightarrow> Connection \<Rightarrow> Connection" where
  "runQueue env c =
     (case queue c of
        [] \<Rightarrow> c
      | task # rest \<Rightarrow>
          if activeTasks c \<ge> maxTasks c then c
          else (case prepare task rest c of
                  (h, task1, c1) \<Rightarrow>
                    if h < length (hosts c1)
                    then c1\<lparr>inflight := inflight c1 @ [(task1, h)],
                            trace := trace c1 @ [Sent task1 h]\<rparr>
                    else runQueue env (handle env c1 task1 h (Err OtherError))))"
  by pat_completeness auto
termination
  apply (relation "measure (\<lambda>(env, c). length (queue c))")
   apply simp
  apply (auto dest!: queue_prepare [OF sym] simp: queue_handle_OtherError)
  done

declare runQueue.simps [simp del]

text \<open>
  The callback as a transport calls it, some time after it was given the request
  (transport I/O is asynchronous): an exception that leaves it goes to the transport, and
  the call of \<open>_runQueue\<close> that ends the callback is not reached.
\<close>

definition callback :: "Env \<Rightarrow> Connection \<Rightarrow> Task \<Rightarrow> nat \<Rightarrow> Outcome \<Rightarrow> Connection" where
  "callback env c task h outcome =
     (if escapes env task h outcome then handle env c task h outcome
      else runQueue env (handle env c task h outcome))"

subsection \<open>Building a request\<close>

datatype Qs = QsString string | QsParams "(string \<times> json option) list"

text \<open>The options of \<open>request\<close>; an absent field is \<open>None\<close>.\<close>

record RequestOptions =
  host_opt :: "nat option"
  method_opt :: "string option"
  body_opt :: "json option"
  expectBinary_opt :: "bool option"
  isBinary_opt :: "bool option"
  allowDirtyRead_opt :: "bool option"
  timeout_opt :: "int option"
  headers_opt :: "Headers option"
  basePath :: "string option"
  path :: "string option"
  qs :: "Qs option"

text \<open>\<open>clean\<close>: the entries whose value is not \<open>undefined\<close>.\<close>

fun clean :: "(string \<times> json option) list \<Rightarrow> (string \<times> json) list" where
  "clean [] = []"
| "clean ((k, None) # kvs) = clean kvs"
| "clean ((k, Some v) # kvs) = (k, v) # clean kvs"

definition buildUrl :: "Env \<Rightarrow> string option \<Rightarrow> string option \<Rightarrow> Qs option \<Rightarrow> Url" where
  "buildUrl env bp p q =
     \<lparr>pathname = (case bp of None \<Rightarrow> [] | Some b \<Rightarrow> b) @ (case p of None \<Rightarrow> [] | Some x \<Rightarrow> x),
      search = (case q of
                  None \<Rightarrow> None
                | Some (QsString s) \<Rightarrow> if s = [] then None else Some (CHR ''?'' # s)
                | Some (QsParams kvs) \<Rightarrow> Some (CHR ''?'' # querystringify env (clean kvs)))\<rparr>"

text \<open>The content type and the body that is sent.\<close>

definition contentType_of :: "Env \<Rightarrow> bool \<Rightarrow> json option \<Rightarrow> string \<times> Payload" where
  "contentType_of env isBin b =
     (if isBin then (''application/octet-stream'', Untouched b)
      else (case b of
              None \<Rightarrow> (''text/plain'', Untouched b)
            | Some v \<Rightarrow>
                if truthy v
                then (if typeof_object v
                      then (''application/json'', Serialized (JSON_stringify env v))
                      else (''text/plain'', Serialized (toString env v)))
                else (''text/plain'', Untouched b)))"

text \<open>\<open>extraHeaders\<close>, with the header of the transaction when \<open>this._transactionId\<close> is truthy.\<close>

definition extraHeaders :: "Env \<Rightarrow> Connection \<Rightarrow> string \<Rightarrow> Headers" where
  "extraHeaders env c contentType =
     (let e = (conn_headers c)(''content-type'' \<mapsto> contentType,
                               ''x-arango-version'' \<mapsto> toString env (JNum (arangoVersion c)))
      in case transactionId c of
           None \<Rightarrow> e
         | Some t \<Rightarrow> if t = [] then e else e(''x-arango-trx-id'' \<mapsto> t))"

text \<open>The task that \<open>request\<close> puts on the queue.\<close>

definition buildTask :: "Env \<Rightarrow> Connection \<Rightarrow> RequestOptions \<Rightarrow> Task" where
  "buildTask env c ro =
     (case contentType_of env (case isBinary_opt ro of None \<Rightarrow> False | Some b \<Rightarrow> b) (body_opt ro) of
        (contentType, payload) \<Rightarrow>
          \<lparr>host = host_opt ro,
           allowDirtyRead = (case allowDirtyRead_opt ro of None \<Rightarrow> False | Some b \<Rightarrow> b),
           retries = 0,
           options =
             \<lparr>req_method = (case method_opt ro of None \<Rightarrow> ''GET'' | Some m \<Rightarrow> m),
              expectBinary = (case expectBinary_opt ro of None \<Rightarrow> False | Some b \<Rightarrow> b),
              timeout = (case timeout_opt ro of None \<Rightarrow> 0 | Some t \<Rightarrow> t),
              url = buildUrl env (basePath ro) (path ro) (qs ro),
              headers = extraHeaders env c contentType
                        ++ (case headers_opt ro of None \<Rightarrow> Map.empty | Some h \<Rightarrow> h),
              body = payload\<rparr>\<rparr>)"

definition request :: "Env \<Rightarrow> RequestOptions \<Rightarrow> Connection \<Rightarrow> Connection" where
  "request env ro c = runQueue env (c\<lparr>queue := queue c @ [buildTask env c ro]\<rparr>)"

subsection \<open>The other methods, and runs of the connection\<close>

definition setTransactionId :: "string \<Rightarrow> Connection \<Rightarrow> Connection" where
  "setTransactionId t c = c\<lparr>transactionId := Some t\<rparr>"

definition clearTransactionId :: "Connection \<Rightarrow> Connection" where
  "clearTransactionId c = c\<lparr>transactionId := None\<rparr>"

definition setHeader :: "string \<Rightarrow> string option \<Rightarrow> Connection \<Rightarrow> Connection" where
  "setHeader headerName v c =
     (case v of
        None \<Rightarrow> c\<lparr>conn_headers := (conn_headers c)(headerName := None)\<rparr>
      | Some x \<Rightarrow> c\<lparr>conn_headers := (conn_headers c)(headerName \<mapsto> x)\<rparr>)"

text \<open>
  What happens to a connection: a method is called, or the transport that holds the
  \<open>i\<close>-th pending callback calls it with an outcome.
\<close>

datatype Event =
    Request RequestOptions
  | Complete nat Outcome
  | SetHeader string "string option"
  | SetTransactionId string
  | ClearTransactionId
  | AddToHostList "string list"

fun step :: "Env \<Rightarrow> Event \<Rightarrow> Connection \<Rightarrow> Connection" where
  "step env (Request ro) c = request env ro c"
| "step env (Complete i outcome) c =
     (if i < length (inflight c)
      then (case inflight c ! i of
              (task, h) \<Rightarrow>
                callback env (c\<lparr>inflight := take i (inflight c) @ drop (Suc i) (inflight c)\<rparr>)
                  task h outcome)
      else c)"
| "step env (SetHeader headerName v) c = setHeader headerName v c"
| "step env (SetTransactionId t) c = setTransactionId t c"
| "step env ClearTransactionId c = clearTransactionId c"
| "step env (AddToHostList us) c = snd (addToHostList env us c)"

definition exec :: "Env \<Rightarrow> Event list \<Rightarrow> Connection \<Rightarrow> Connection" where
  "exec env evs c = fold (step env) evs c"

text \<open>The hosts of the transport calls of a trace, in order.\<close>

fun sent_hosts :: "Effect list \<Rightarrow> nat list" where
  "sent_hosts [] = []"
| "sent_hosts (Sent task h # es) = h # sent_hosts es"
| "sent_hosts (Settled task s # es) = sent_hosts es"
| "sent_hosts (Uncaught task e # es) = sent_hosts es"

text \<open>The ends of promises of a trace, in order.\<close>

fun settlements :: "Effect list \<Rightarrow> Settlement list" where
  "settlements [] = []"
| "settlements (Sent task h # es) = settlements es"
| "settlements (Settled task s # es) = s # settlements es"
| "settlements (Uncaught task e # es) = settlements es"

text \<open>The exceptions of a trace that left a callback, in order.\<close>

fun uncaught :: "Effect list \<Rightarrow> Error list" where
  "uncaught [] = []"
| "uncaught (Sent task h # es) = uncaught es"
| "uncaught (Settled task s # es) = uncaught es"
| "uncaught (Uncaught task e # es) = e # uncaught es"

text \<open>The settings that the constructor fixes.\<close>

definition settings :: "Connection \<Rightarrow> LoadBalancingStrategy \<times> bool \<times> bool \<times> int \<times> int" where
  "settings c = (loadBalancingStrategy c, useFailOver c, shouldRetry c, maxRetries c, maxTasks c)"

text \<open>
  The overlay of layers of headers as the specification words it: the layers are given
  from the lowest priority to the highest, and the value of a name is the one of the last
  layer that has the name.
\<close>

definition overlay :: "Headers list \<Rightarrow> Headers" where
  "overlay layers k =
     (case filter (\<lambda>l. l k \<noteq> None) layers of [] \<Rightarrow> None | x # xs \<Rightarrow> last (x # xs) k)"

subsection \<open>Runs without errors and redirects\<close>

text \<open>
  A task with no host set that is not a dirty read, and the events of a run of such tasks:
  requests for them, transports that end with a response that is no redirect, and the
  setters. A task with no host set, and the same events for such tasks.
\<close>

definition plain_task :: "Task \<Rightarrow> bool" where
  "plain_task t = (host t = None \<and> \<not> allowDirtyRead t)"

fun plain_event :: "Event \<Rightarrow> bool" where
  "plain_event (Request ro) =
     (host_opt ro = None \<and> (allowDirtyRead_opt ro = None \<or> allowDirtyRead_opt ro = Some False))"
| "plain_event (Complete i (Res r)) = (leader_of r = None)"
| "plain_event (Complete i (Err e)) = False"
| "plain_event (AddToHostList us) = False"
| "plain_event (SetHeader k v) = True"
| "plain_event (SetTransactionId t) = True"
| "plain_event ClearTransactionId = True"

definition unpinned :: "Task \<Rightarrow> bool" where
  "unpinned t = (host t = None)"

fun calm_event :: "Event \<Rightarrow> bool" where
  "calm_event (Request ro) = (host_opt ro = None)"
| "calm_event (Complete i (Res r)) = (leader_of r = None)"
| "calm_event (Complete i (Err e)) = False"
| "calm_event (AddToHostList us) = False"
| "calm_event (SetHeader k v) = True"
| "calm_event (SetTransactionId t) = True"
| "calm_event ClearTransactionId = True"

text \<open>The hosts of the transport calls for tasks that are not dirty reads.\<close>

fun nondirty_hosts :: "Effect list \<Rightarrow> nat list" where
  "nondirty_hosts [] = []"
| "nondirty_hosts (Sent task h # es) =
     (if allowDirtyRead task then nondirty_hosts es else h # nondirty_hosts es)"
| "nondirty_hosts (Settled task s # es) = nondirty_hosts es"
| "nondirty_hosts (Uncaught task e # es) = nondirty_hosts es"

text \<open>
  The transport calls for dirty reads: the host, and the value of the header
  \<open>x-arango-allow-dirty-read\<close> of the task.
\<close>

fun dirty_sends :: "Effect list \<Rightarrow> (nat \<times> string option) list" where
  "dirty_sends [] = []"
| "dirty_sends (Sent task h # es) =
     (if allowDirtyRead task
      then (h, headers (options task) ''x-arango-allow-dirty-read'') # dirty_sends es
      else dirty_sends es)"
| "dirty_sends (Settled task s # es) = dirty_sends es"
| "dirty_sends (Uncaught task e # es) = dirty_sends es"

text \<open>The task with the header of a dirty read set.\<close>

definition mark_dirty :: "Task \<Rightarrow> Task" where
  "mark_dirty task =
     task\<lparr>options := (options task)
       \<lparr>headers := (headers (options task))(''x-arango-allow-dirty-read'' \<mapsto> ''true'')\<rparr>\<rparr>"

text \<open>The invariant of a round-robin run.\<close>

definition rr_inv :: "nat list \<Rightarrow> nat \<Rightarrow> nat \<Rightarrow> Connection \<Rightarrow> bool" where
  "rr_inv base s n c =
     (loadBalancingStrategy c = ROUND_ROBIN \<and> length (hosts c) = n
      \<and> list_all plain_task (queue c) \<and> list_all (\<lambda>p. plain_task (fst p)) (inflight c)
      \<and> (\<exists>m. sent_hosts (trace c) = base @ map (\<lambda>k. (s + k) mod n) [0..<m]
              \<and> activeHost c = (s + m) mod n))"

text \<open>The invariant of a run without round robin.\<close>

definition dr_inv ::
  "nat list \<Rightarrow> (nat \<times> string option) list \<Rightarrow> nat \<Rightarrow> nat \<Rightarrow> nat \<Rightarrow> Connection \<Rightarrow> bool" where
  "dr_inv base bd a d n c =
     (loadBalancingStrategy c \<noteq> ROUND_ROBIN \<and> length (hosts c) = n
      \<and> list_all unpinned (queue c) \<and> list_all (\<lambda>p. unpinned (fst p)) (inflight c)
      \<and> activeHost c = a
      \<and> (\<exists>m. nondirty_hosts (trace c) = base @ replicate m a)
      \<and> (\<exists>m. dirty_sends (trace c) = bd @ map (\<lambda>k. ((d + k) mod n, Some ''true'')) [0..<m]
              \<and> activeDirtyHost c = (d + m) mod n))"

subsection \<open>Retries\<close>

text \<open>The transport error of a refused connection.\<close>

definition connection_refused :: Error where
  "connection_refused = SystemError ''connect'' ''ECONNREFUSED''"

text \<open>
  The state of a pool while it retries one task: the queue is empty, one transport is
  pending, for a task with no host set that has been retried \<open>k\<close> times, after \<open>k + 1\<close>
  transport calls and no new end of a promise.
\<close>

definition retrying :: "nat \<Rightarrow> nat \<Rightarrow> int \<Rightarrow> Settlement list \<Rightarrow> nat \<Rightarrow> Connection \<Rightarrow> bool" where
  "retrying k n e st s0 c =
     (queue c = []
      \<and> (\<exists>t h. inflight c = [(t, h)] \<and> host t = None \<and> retries t = int k)
      \<and> shouldRetry c \<and> activeTasks c \<le> maxTasks c
      \<and> activeHost c < n \<and> activeDirtyHost c < n \<and> length (hosts c) = n
      \<and> effectiveMax c = e
      \<and> settlements (trace c) = st
      \<and> length (sent_hosts (trace c)) = s0 + k + 1)"

subsection \<open>A small pool, for the examples\<close>

text \<open>
  An environment whose sanitizer leaves a URL as it is and whose \<open>JSON.parse\<close> knows four
  bodies, two error envelopes and the same two with a fifth key \<open>hasOwnProperty\<close>; a configuration with given URLs and strategy; a request with no option set; the
  transport error of a refused connection; a response with a JSON content type.
\<close>

definition not_found_body :: string where
  \<open>not_found_body = ''{"error":true,"code":404,"errorMessage":"collection not found","errorNum":1203}''\<close>

definition soft_body :: string where
  \<open>soft_body = ''{"error":false,"code":200,"errorMessage":"","errorNum":0}''\<close>

definition shadowed_not_found_body :: string where
  \<open>shadowed_not_found_body = ''{"error":true,"code":404,"errorMessage":"collection not found","errorNum":1203,"hasOwnProperty":true}''\<close>

definition shadowed_soft_body :: string where
  \<open>shadowed_soft_body = ''{"error":false,"code":200,"errorMessage":"","errorNum":0,"hasOwnProperty":0}''\<close>

definition example_env :: Env where
  "example_env =
     \<lparr>sanitizeUrl = (\<lambda>u. u),
      isBrowser = False,
      JSON_parse = (\<lambda>s.
         if s = not_found_body
         then Some (JObj [(''error'', JBool True), (''code'', JNum 404),
                          (''errorMessage'', JStr ''collection not found''),
                          (''errorNum'', JNum 1203)])
         else if s = soft_body
         then Some (JObj [(''error'', JBool False), (''code'', JNum 200),
                          (''errorMessage'', JStr []), (''errorNum'', JNum 0)])
         else if s = shadowed_not_found_body
         then Some (JObj [(''error'', JBool True), (''code'', JNum 404),
                          (''errorMessage'', JStr ''collection not found''),
                          (''errorNum'', JNum 1203), (''hasOwnProperty'', JBool True)])
         else if s = shadowed_soft_body
         then Some (JObj [(''error'', JBool False), (''code'', JNum 200),
                          (''errorMessage'', JStr []), (''errorNum'', JNum 0),
                          (''hasOwnProperty'', JNum 0)])
         else None),
      JSON_stringify = (\<lambda>v. []),
      toString = (\<lambda>v. []),
      querystringify = (\<lambda>kvs. [])\<rparr>"

definition example_config :: "string list \<Rightarrow> LoadBalancingStrategy \<Rightarrow> Config" where
  "example_config us s =
     \<lparr>cfg_arangoVersion = None, cfg_agentOptions = None, cfg_headers = None,
      cfg_loadBalancingStrategy = Some s, cfg_maxRetries = None, cfg_url = Some (ManyUrls us)\<rparr>"

definition plain_request :: RequestOptions where
  "plain_request =
     \<lparr>host_opt = None, method_opt = None, body_opt = None, expectBinary_opt = None,
      isBinary_opt = None, allowDirtyRead_opt = None, timeout_opt = None, headers_opt = None,
      basePath = None, path = None, qs = None\<rparr>"

definition refused :: Outcome where
  "refused = Err (SystemError ''connect'' ''ECONNREFUSED'')"

definition json_response :: "nat \<Rightarrow> string \<Rightarrow> string Response" where
  "json_response st b =
     \<lparr>statusCode = Some st, res_headers = [''content-type'' \<mapsto> ''application/json''],
      res_body = b, arangojsHostId = None\<rparr>"

definition example_connection :: Connection where
  "example_connection = new_Connection example_env 0 0 (example_config [''http://h1''] NONE)"

definition example_task :: Task where
  "example_task = buildTask example_env example_connection plain_request"

definition redirect_response :: "string \<Rightarrow> string Response" where
  "redirect_response u =
     \<lparr>statusCode = Some 503, res_headers = [''x-arango-endpoint'' \<mapsto> u],
      res_body = [], arangojsHostId = None\<rparr>"

definition layered_connection :: Connection where
  "layered_connection =
     setTransactionId ''7''
       (new_Connection example_env 0 0
          ((example_config [''http://h1''] NONE)
             \<lparr>cfg_headers := Some [''x-tag'' \<mapsto> ''pool'', ''content-type'' \<mapsto> ''text/html'']\<rparr>))"

definition layered_request :: RequestOptions where
  "layered_request =
     plain_request\<lparr>headers_opt := Some [''x-arango-trx-id'' \<mapsto> ''9'', ''x-tag'' \<mapsto> ''mine'']\<rparr>"

definition three_hosts :: "LoadBalancingStrategy \<Rightarrow> Connection" where
  "three_hosts s =
     new_Connection example_env 0 0 (example_config [''http://h1'', ''http://h2'', ''http://h3''] s)"

definition dirty_request :: RequestOptions where
  "dirty_request = plain_request\<lparr>allowDirtyRead_opt := Some True\<rparr>"

definition dirty_task :: Task where
  "dirty_task = buildTask example_env (three_hosts NONE) dirty_request"

definition dirty_queued :: Connection where
  "dirty_queued = (three_hosts NONE)\<lparr>queue := [dirty_task]\<rparr>"

definition interleaved :: "Event list" where
  "interleaved =
     [Request dirty_request, Request plain_request, Request dirty_request,
      Request plain_request, Request dirty_request, Request plain_request]"

definition one_at_a_time :: Connection where
  "one_at_a_time =
     new_Connection example_env 0 0
       ((example_config [''http://h1''] NONE)
          \<lparr>cfg_agentOptions := Some \<lparr>maxSockets = Some 1, keepAlive = Some False\<rparr>\<rparr>)"

definition no_retry_config :: Config where
  "no_retry_config =
     (example_config [''http://h1'', ''http://h2'', ''http://h3''] NONE)
       \<lparr>cfg_maxRetries := Some RetriesFalse\<rparr>"

lemmas example_defs = example_env_def example_config_def plain_request_def refused_def json_response_def
  not_found_body_def soft_body_def shadowed_not_found_body_def shadowed_soft_body_def
  example_connection_def example_task_def redirect_response_def

lemmas run_defs = exec_def request_def callback_def runQueue.simps new_Connection_def addToHostList_def
  buildTask_def prepare_def chooseHost_def maxTasks_of_def agentOptions_of_def contentType_of_def
  handle_def retryable_def effectiveMax_def extraHeaders_def buildUrl_def leader_of_def
  LEADER_ENDPOINT_HEADER_def escapes_def deliver_def Let_def

lemmas scenario_defs = three_hosts_def dirty_request_def dirty_task_def dirty_queued_def
  interleaved_def

section \<open>Properties\<close>

subsection \<open>The host list\<close>

lemma indexOf_ge: "- 1 \<le> indexOf xs x"
  by (induction xs) (auto simp: Let_def)

lemma indexOf_absent: "(indexOf xs x = - 1) = (x \<notin> set xs)"
proof (induction xs)
  case Nil
  show ?case by simp
next
  case (Cons y ys)
  have "- 1 \<le> indexOf ys x" by (rule indexOf_ge)
  with Cons show ?case by (auto simp: Let_def)
qed

lemma indexOf_present:
  "x \<in> set xs \<Longrightarrow>
     0 \<le> indexOf xs x \<and> nat (indexOf xs x) < length xs \<and> xs ! nat (indexOf xs x) = x"
proof (induction xs)
  case Nil
  then show ?case by simp
next
  case (Cons y ys)
  show ?case
  proof (cases "y = x")
    case True
    then show ?thesis by simp
  next
    case False
    with Cons.prems have mem: "x \<in> set ys" by simp
    then have ne: "indexOf ys x \<noteq> - 1" by (simp add: indexOf_absent)
    from Cons.IH [OF mem] False ne show ?thesis
      by (auto simp: Let_def nat_add_distrib)
  qed
qed

lemma indexOf_append: "x \<in> set xs \<Longrightarrow> indexOf (xs @ ys) x = indexOf xs x"
  by (induction xs) (auto simp: Let_def indexOf_absent)

lemma indexOf_append_new: "x \<notin> set xs \<Longrightarrow> indexOf (xs @ [x]) x = int (length xs)"
  by (induction xs) (auto simp: Let_def)

lemma addToHostList_single:
  "addToHostList env [u] c =
     (if sanitizeUrl env u \<in> set (urls c)
      then ([indexOf (urls c) (sanitizeUrl env u)], c\<lparr>urls := urls c, hosts := hosts c\<rparr>)
      else ([int (length (urls c))],
            c\<lparr>urls := urls c @ [sanitizeUrl env u],
              hosts := hosts c @ [createRequest (sanitizeUrl env u)]\<rparr>))"
  by (simp add: addToHostList_def Let_def indexOf_absent indexOf_append_new)

text \<open>
  What \<open>addToHostList\<close> does keep: every index it returns is the place of the normalized
  URL in the stored list; URLs that are all stored already change nothing; and a list
  without repeats added to a list without repeats gives a list without repeats.
\<close>

lemma urls_addToHostList:
  "urls (snd (addToHostList env us c)) =
     urls c @ filter (\<lambda>u. u \<notin> set (urls c)) (map (sanitizeUrl env) us)"
  by (simp add: addToHostList_def Let_def indexOf_absent)

lemma addToHostList_returns_indices:
  assumes "i < length us"
  shows "0 \<le> fst (addToHostList env us c) ! i
    \<and> nat (fst (addToHostList env us c) ! i) < length (urls (snd (addToHostList env us c)))
    \<and> urls (snd (addToHostList env us c)) ! nat (fst (addToHostList env us c) ! i)
        = sanitizeUrl env (us ! i)"
proof -
  let ?urls = "urls (snd (addToHostList env us c))"
  have "sanitizeUrl env (us ! i) \<in> set ?urls"
    using assms by (auto simp: urls_addToHostList)
  from indexOf_present [OF this] assms show ?thesis
    by (simp add: addToHostList_def Let_def indexOf_absent)
qed

lemma addToHostList_known:
  assumes "set (map (sanitizeUrl env) us) \<subseteq> set (urls c)"
  shows "urls (snd (addToHostList env us c)) = urls c"
    and "hosts (snd (addToHostList env us c)) = hosts c"
    and "fst (addToHostList env us c) = map (\<lambda>u. indexOf (urls c) (sanitizeUrl env u)) us"
proof -
  have "filter (\<lambda>u. indexOf (urls c) u = - 1) (map (sanitizeUrl env) us) = []"
    using assms by (auto simp: filter_empty_conv indexOf_absent)
  then show "urls (snd (addToHostList env us c)) = urls c"
    and "hosts (snd (addToHostList env us c)) = hosts c"
    and "fst (addToHostList env us c) = map (\<lambda>u. indexOf (urls c) (sanitizeUrl env u)) us"
    by (simp_all add: addToHostList_def Let_def)
qed

lemma addToHostList_distinct:
  assumes "distinct (urls c)" "distinct (map (sanitizeUrl env) us)"
  shows "distinct (urls (snd (addToHostList env us c)))"
  using assms by (auto simp: urls_addToHostList)

text \<open>
  Claim C9: after any call of \<open>addToHostList\<close>, also with a list that repeats a URL, the
  stored list of URLs has no duplicate, and the call returns for each URL the index of
  its normalized form.

  The filter of \<open>addToHostList\<close> compares each URL with the list stored before the call
  only, so a URL that is new and occurs twice in the argument is stored twice. Here the
  constructor is given the same URL twice: both copies are stored, and the stored list
  is not duplicate-free.
\<close>

theorem addToHostList_repeated_url_stored_twice:
  "urls (new_Connection env u1 u2
           \<lparr>cfg_arangoVersion = None, cfg_agentOptions = None, cfg_headers = None,
            cfg_loadBalancingStrategy = None, cfg_maxRetries = None,
            cfg_url = Some (ManyUrls [u, u])\<rparr>) = [sanitizeUrl env u, sanitizeUrl env u]
   \<and> \<not> distinct (urls (new_Connection env u1 u2
           \<lparr>cfg_arangoVersion = None, cfg_agentOptions = None, cfg_headers = None,
            cfg_loadBalancingStrategy = None, cfg_maxRetries = None,
            cfg_url = Some (ManyUrls [u, u])\<rparr>))"
  by (simp add: new_Connection_def addToHostList_def Let_def)

subsection \<open>The retry of a pinned task\<close>

lemma chooseHost_pinned: "host task = Some th \<Longrightarrow> chooseHost task c = (th, task, c)"
  by (simp add: chooseHost_def)

lemma pinned_nonzero_error_is_surfaced:
  "host task = Some (Suc n) \<Longrightarrow>
     queue (handle env c task h (Err err)) = queue c
     \<and> trace (handle env c task h (Err err)) = trace c @ [Settled task (RejectTransport err)]"
  by (simp add: handle_def retryable_def Let_def)

text \<open>
  Claim C1: a transport error on a task whose host is set, to any index and also to index
  0, goes to the caller, and the task is never retried; the task never runs on another
  host than its own.

  The retry tests \<open>!task.host\<close>, which holds of host 0 as of no host. In a pool of two
  hosts with the default retries, a request pinned to host 0 whose connection is refused
  is put back on the queue and sent to host 0 a second time, with one retry counted, and
  its promise has not ended.
\<close>

theorem pinned_to_host_zero_is_retried:
  "sent_hosts (trace (exec example_env [Request (plain_request\<lparr>host_opt := Some 0\<rparr>), Complete 0 refused]
      (new_Connection example_env 0 0 (example_config [''http://h1'', ''http://h2''] NONE)))) = [0, 0]
  \<and> settlements (trace (exec example_env [Request (plain_request\<lparr>host_opt := Some 0\<rparr>), Complete 0 refused]
      (new_Connection example_env 0 0 (example_config [''http://h1'', ''http://h2''] NONE)))) = []
  \<and> map (\<lambda>(t, h). (host t, retries t)) (inflight (exec example_env [Request (plain_request\<lparr>host_opt := Some 0\<rparr>), Complete 0 refused]
      (new_Connection example_env 0 0 (example_config [''http://h1'', ''http://h2''] NONE)))) = [(Some 0, 1)]"
  by (simp add: run_defs example_defs)

subsection \<open>The error envelope\<close>

lemma parsedBody_of_json:
  assumes "res_body res \<noteq> []" "res_headers res ''content-type'' = Some ct" "MIME_JSON ct"
    "JSON_parse env (res_body res) = Some v"
  shows "parsedBody_of env eb res = Some (Parsed v)"
  using assms by (simp add: parsedBody_of_def)

lemma is_envelope_obj:
  "''hasOwnProperty'' \<notin> fst ` set kvs \<Longrightarrow>
     is_envelope (Parsed (JObj kvs)) =
       Inr ({''error'', ''code'', ''errorMessage'', ''errorNum''} \<subseteq> fst ` set kvs)"
  by (simp add: js_and_def)

lemma is_envelope_shadowed:
  "''hasOwnProperty'' \<in> fst ` set kvs \<Longrightarrow> is_envelope (Parsed (JObj kvs)) = Inl OtherError"
  by (simp add: js_and_def)

lemma resolve_RejectHttp:
  "resolve env eb res = Inr (RejectHttp r) \<Longrightarrow>
     (\<exists>b. parsedBody_of env eb res = Some b \<and> is_envelope b = Inr False)
     \<and> (\<exists>st. statusCode res = Some st \<and> 400 \<le> st)"
  by (auto simp: resolve_def split: option.splits if_splits sum.splits)

lemma trace_handle_Res:
  "leader_of res = None \<Longrightarrow>
   trace (handle env c task h (Res res)) =
     trace c @ [deliver env task (res\<lparr>arangojsHostId := Some h\<rparr>)]"
  by (simp add: handle_def)

text \<open>
  What holds of the envelope: a response that is no redirect and whose parsed body is an
  object with the four keys, and without an own property \<open>hasOwnProperty\<close>, ends the
  promise with an \<open>ArangoError\<close> whose \<open>errorNum\<close> is the one of the body, whatever the
  status and the values; an \<open>HttpError\<close> needs a failed test and a status of at least 400
  (\<open>resolve_RejectHttp\<close>).
\<close>

lemma envelope_gives_ArangoError:
  assumes "leader_of res = None" "res_body res \<noteq> []"
    and "res_headers res ''content-type'' = Some ct" "MIME_JSON ct"
    and "JSON_parse env (res_body res) = Some (JObj kvs)"
    and "''hasOwnProperty'' \<notin> fst ` set kvs"
    and "{''error'', ''code'', ''errorMessage'', ''errorNum''} \<subseteq> fst ` set kvs"
  shows "trace (handle env c task h (Res res)) =
          trace c @ [Settled task
            (RejectArango (with_body (res\<lparr>arangojsHostId := Some h\<rparr>) (Parsed (JObj kvs))))]"
    and "errorNum (with_body (res\<lparr>arangojsHostId := Some h\<rparr>) (Parsed (JObj kvs)))
            = map_of kvs ''errorNum''"
proof -
  let ?res = "res\<lparr>arangojsHostId := Some h\<rparr>"
  from assms have "parsedBody_of env (expectBinary (options task)) ?res = Some (Parsed (JObj kvs))"
    by (intro parsedBody_of_json [where ct = ct]) simp_all
  moreover have "is_envelope (Parsed (JObj kvs)) = Inr True"
    using is_envelope_obj [OF assms(6)] assms(7) by simp
  ultimately have "resolve env (expectBinary (options task)) ?res
      = Inr (RejectArango (with_body ?res (Parsed (JObj kvs))))"
    by (simp add: resolve_def)
  with assms(1) show "trace (handle env c task h (Res res)) =
          trace c @ [Settled task (RejectArango (with_body ?res (Parsed (JObj kvs))))]"
    by (simp add: trace_handle_Res deliver_def)
  show "errorNum (with_body ?res (Parsed (JObj kvs))) = map_of kvs ''errorNum''"
    by (simp add: errorNum_def with_body_def)
qed

lemma envelope_test_without_shadow:
  assumes "res_body res \<noteq> []" "res_headers res ''content-type'' = Some ct" "MIME_JSON ct"
    and "JSON_parse env (res_body res) = Some (JObj kvs)"
    and "''hasOwnProperty'' \<notin> fst ` set kvs"
  shows "(resolve env eb res = Inr (RejectArango (with_body res (Parsed (JObj kvs)))))
          = ({''error'', ''code'', ''errorMessage'', ''errorNum''} \<subseteq> fst ` set kvs)"
proof -
  from assms have pb: "parsedBody_of env eb res = Some (Parsed (JObj kvs))"
    by (intro parsedBody_of_json [where ct = ct]) simp_all
  from assms(5) have e: "is_envelope (Parsed (JObj kvs)) =
      Inr ({''error'', ''code'', ''errorMessage'', ''errorNum''} \<subseteq> fst ` set kvs)"
    by (rule is_envelope_obj)
  show ?thesis by (simp add: resolve_def pb e del: is_envelope.simps)
qed

text \<open>The scenario of the specification: status 404 and the envelope with \<open>errorNum\<close> 1203.\<close>

lemma not_found_is_ArangoError:
  "settlements (trace (handle example_env example_connection example_task 0
       (Res (json_response 404 not_found_body))))
     = [RejectArango (with_body ((json_response 404 not_found_body)\<lparr>arangojsHostId := Some 0\<rparr>)
          (Parsed (JObj [(''error'', JBool True), (''code'', JNum 404),
                   (''errorMessage'', JStr ''collection not found''),
                   (''errorNum'', JNum 1203)])))]
   \<and> errorNum (with_body ((json_response 404 not_found_body)\<lparr>arangojsHostId := Some 0\<rparr>)
          (Parsed (JObj [(''error'', JBool True), (''code'', JNum 404),
                   (''errorMessage'', JStr ''collection not found''),
                   (''errorNum'', JNum 1203)]))) = Some (JNum 1203)"
proof -
  let ?res = "json_response 404 not_found_body"
  let ?kvs = "[(''error'', JBool True), (''code'', JNum 404),
               (''errorMessage'', JStr ''collection not found''), (''errorNum'', JNum 1203)]"
  have h1: "leader_of ?res = None"
    by (simp add: leader_of_def json_response_def)
  have h2: "res_body ?res \<noteq> []"
    by (simp add: json_response_def not_found_body_def)
  have h3: "res_headers ?res ''content-type'' = Some ''application/json''"
    by (simp add: json_response_def)
  have h4: "MIME_JSON ''application/json''"
    by (simp add: mime_here_def)
  have h5: "JSON_parse example_env (res_body ?res) = Some (JObj ?kvs)"
    by (simp add: json_response_def example_env_def)
  have h6: "''hasOwnProperty'' \<notin> fst ` set ?kvs" by simp
  have h7: "{''error'', ''code'', ''errorMessage'', ''errorNum''} \<subseteq> fst ` set ?kvs"
    by simp
  have tr: "trace example_connection = []"
    by (simp add: example_connection_def new_Connection_def addToHostList_def example_config_def Let_def)
  from envelope_gives_ArangoError(1) [OF h1 h2 h3 h4 h5 h6 h7, of example_connection example_task 0]
    envelope_gives_ArangoError(2) [OF h1 h2 h3 h4 h5 h6 h7, of 0] tr
  show ?thesis by simp
qed

text \<open>
  What does not hold: when the parsed object has an own property \<open>hasOwnProperty\<close>, the
  test throws; \<open>resolve\<close> ends no promise, the exception leaves the callback and the
  callback does not reach its call of \<open>_runQueue\<close>.
\<close>

lemma shadowed_body_throws:
  assumes "res_body res \<noteq> []" "res_headers res ''content-type'' = Some ct" "MIME_JSON ct"
    and "JSON_parse env (res_body res) = Some (JObj kvs)"
    and "''hasOwnProperty'' \<in> fst ` set kvs"
  shows "resolve env eb res = Inl OtherError"
proof -
  from assms have pb: "parsedBody_of env eb res = Some (Parsed (JObj kvs))"
    by (intro parsedBody_of_json [where ct = ct]) simp_all
  from assms(5) have e: "is_envelope (Parsed (JObj kvs)) = Inl OtherError"
    by (rule is_envelope_shadowed)
  show ?thesis by (simp add: resolve_def pb e del: is_envelope.simps)
qed

lemma shadowed_body_leaves_callback:
  assumes "leader_of res = None" "res_body res \<noteq> []"
    and "res_headers res ''content-type'' = Some ct" "MIME_JSON ct"
    and "JSON_parse env (res_body res) = Some (JObj kvs)"
    and "''hasOwnProperty'' \<in> fst ` set kvs"
  shows "callback env c task h (Res res) =
     c\<lparr>activeTasks := activeTasks c - 1, trace := trace c @ [Uncaught task OtherError]\<rparr>"
proof -
  let ?res = "res\<lparr>arangojsHostId := Some h\<rparr>"
  from assms have r: "resolve env (expectBinary (options task)) ?res = Inl OtherError"
    by (intro shadowed_body_throws [where ct = ct and kvs = kvs]) simp_all
  with assms(1) show ?thesis
    by (simp add: callback_def escapes_def handle_def deliver_def)
qed

text \<open>
  A pool that runs one task at a time: the exception of the first task leaves the second
  one on the queue, with no transport pending.
\<close>

lemma uncaught_exception_stalls_queue:
  "length (queue (exec example_env
       [Request plain_request, Request plain_request,
        Complete 0 (Res (json_response 404 shadowed_not_found_body))] one_at_a_time)) = 1
   \<and> inflight (exec example_env
       [Request plain_request, Request plain_request,
        Complete 0 (Res (json_response 404 shadowed_not_found_body))] one_at_a_time) = []
   \<and> settlements (trace (exec example_env
       [Request plain_request, Request plain_request,
        Complete 0 (Res (json_response 404 shadowed_not_found_body))] one_at_a_time)) = []"
  by (simp add: one_at_a_time_def run_defs example_defs resolve_def parsedBody_of_def
        mime_here_def js_and_def)

text \<open>
  Claim C4: a response that is not a redirect and whose parsed body is an object with the
  four keys \<open>error\<close>, \<open>code\<close>, \<open>errorMessage\<close> and \<open>errorNum\<close> ends the promise of the task
  with an \<open>ArangoError\<close> made from that body, whatever the status; an \<open>HttpError\<close> is raised
  only when the test of the envelope fails and the status is at least 400.

  The test calls \<open>parsedBody.hasOwnProperty\<close>, the method as the parsed object gives it. A
  404 whose body is the envelope with \<open>errorNum\<close> 1203 and a fifth key \<open>hasOwnProperty\<close>
  makes that call throw a \<open>TypeError\<close>: no \<open>ArangoError\<close> is made, the promise of the request
  does not end, and the exception leaves the callback.
\<close>

theorem shadowed_envelope_ends_no_promise:
  "JSON_parse example_env shadowed_not_found_body
     = Some (JObj [(''error'', JBool True), (''code'', JNum 404),
                   (''errorMessage'', JStr ''collection not found''),
                   (''errorNum'', JNum 1203), (''hasOwnProperty'', JBool True)])
   \<and> sent_hosts (trace (exec example_env
         [Request plain_request, Complete 0 (Res (json_response 404 shadowed_not_found_body))]
         example_connection)) = [0]
   \<and> settlements (trace (exec example_env
         [Request plain_request, Complete 0 (Res (json_response 404 shadowed_not_found_body))]
         example_connection)) = []
   \<and> uncaught (trace (exec example_env
         [Request plain_request, Complete 0 (Res (json_response 404 shadowed_not_found_body))]
         example_connection)) = [OtherError]
   \<and> inflight (exec example_env
         [Request plain_request, Complete 0 (Res (json_response 404 shadowed_not_found_body))]
         example_connection) = []"
  by (simp add: run_defs example_defs resolve_def parsedBody_of_def mime_here_def js_and_def)

text \<open>
  Claim C10: the test of the envelope looks at the presence of the four keys on the parsed
  body and never at their values, so every response whose parsed object has the four
  keys, also one with status 200 and \<open>error: false\<close>, is rejected with an \<open>ArangoError\<close>.

  The test also depends on a fifth key: a response with status 200 whose parsed object
  has the four keys, with \<open>error: false\<close>, and an own property \<open>hasOwnProperty\<close> is neither
  rejected with an \<open>ArangoError\<close> nor delivered; \<open>resolve\<close> throws the \<open>TypeError\<close> of the call.
  Without that key the same response is rejected with an \<open>ArangoError\<close>.
\<close>

theorem shadowed_envelope_test_throws:
  "JSON_parse example_env shadowed_soft_body
     = Some (JObj [(''error'', JBool False), (''code'', JNum 200),
                   (''errorMessage'', JStr []), (''errorNum'', JNum 0),
                   (''hasOwnProperty'', JNum 0)])
   \<and> resolve example_env False (json_response 200 shadowed_soft_body) = Inl OtherError
   \<and> resolve example_env False (json_response 200 soft_body)
       = Inr (RejectArango (with_body (json_response 200 soft_body)
           (Parsed (JObj [(''error'', JBool False), (''code'', JNum 200),
                     (''errorMessage'', JStr []), (''errorNum'', JNum 0)]))))"
  by (simp add: example_defs resolve_def parsedBody_of_def mime_here_def js_and_def)

subsection \<open>The settings of a pool\<close>

lemma settings_addToHostList: "settings (snd (addToHostList env us c)) = settings c"
  by (simp add: settings_def addToHostList_def Let_def)

lemma settings_handle: "settings (handle env c task h outcome) = settings c"
  by (cases outcome)
     (auto simp: settings_def handle_def Let_def addToHostList_def split: option.splits prod.splits)

lemma settings_chooseHost: "settings (snd (snd (chooseHost task c))) = settings c"
  by (simp add: settings_def chooseHost_def split: option.splits)

lemma settings_prepare: "prepare task rest c = (h, task1, c1) \<Longrightarrow> settings c1 = settings c"
  using settings_chooseHost [of task "c\<lparr>queue := rest\<rparr>"]
  by (auto simp: prepare_def settings_def split: prod.splits)

lemma settings_runQueue: "settings (runQueue env c) = settings c"
proof (induction env c rule: runQueue.induct)
  case (1 env c)
  show ?case
  proof (cases "queue c")
    case Nil
    then show ?thesis by (simp add: runQueue.simps [of env c])
  next
    case (Cons task rest)
    show ?thesis
    proof (cases "maxTasks c \<le> activeTasks c")
      case True
      with Cons show ?thesis by (simp add: runQueue.simps [of env c])
    next
      case False
      obtain h task1 c1 where p: "prepare task rest c = (h, task1, c1)"
        by (cases "prepare task rest c") auto
      have s1: "settings c1 = settings c" using p by (rule settings_prepare)
      show ?thesis
      proof (cases "h < length (hosts c1)")
        case True
        with Cons False p s1 show ?thesis
          by (simp add: runQueue.simps [of env c] settings_def)
      next
        case nh: False
        have "settings (runQueue env (handle env c1 task1 h (Err OtherError)))
              = settings (handle env c1 task1 h (Err OtherError))"
          using Cons False p nh by (intro "1.IH") auto
        with Cons False p nh s1 show ?thesis
          by (simp add: runQueue.simps [of env c] settings_handle)
      qed
    qed
  qed
qed

lemma settings_step: "settings (step env ev c) = settings c"
proof (cases ev)
  case (Request ro)
  have "settings (c\<lparr>queue := queue c @ [buildTask env c ro]\<rparr>) = settings c"
    by (simp add: settings_def)
  with Request show ?thesis by (simp add: request_def settings_runQueue)
next
  case (Complete i outcome)
  have "settings (c\<lparr>inflight := take i (inflight c) @ drop (Suc i) (inflight c)\<rparr>) = settings c"
    by (simp add: settings_def)
  with Complete show ?thesis
    by (auto simp: callback_def settings_runQueue settings_handle split: prod.splits)
next
  case (SetHeader k v)
  then show ?thesis by (cases v) (simp_all add: setHeader_def settings_def)
next
  case (SetTransactionId t)
  then show ?thesis by (simp add: setTransactionId_def settings_def)
next
  case ClearTransactionId
  then show ?thesis by (simp add: clearTransactionId_def settings_def)
next
  case (AddToHostList us)
  then show ?thesis by (simp add: settings_addToHostList)
qed

lemma settings_exec: "settings (exec env evs c) = settings c"
  unfolding exec_def by (induction evs arbitrary: c) (simp_all add: settings_step)

lemma settings_new_Connection:
  "settings (new_Connection env u1 u2 cfg) =
     ((case cfg_loadBalancingStrategy cfg of None \<Rightarrow> NONE | Some s \<Rightarrow> s),
      (case cfg_loadBalancingStrategy cfg of None \<Rightarrow> NONE | Some s \<Rightarrow> s) \<noteq> ROUND_ROBIN,
      cfg_maxRetries cfg \<noteq> Some RetriesFalse,
      (case cfg_maxRetries cfg of Some (RetriesNumber n) \<Rightarrow> n | _ \<Rightarrow> 0),
      maxTasks_of (agentOptions_of env cfg))"
  by (simp add: new_Connection_def settings_def addToHostList_def Let_def)

lemma advance_differs: "1 < n \<Longrightarrow> (a + 1) mod n \<noteq> (a::nat)"
proof
  assume n: "1 < n" and e: "(a + 1) mod n = a"
  then have "a < n" by (metis mod_less_divisor less_trans zero_less_one)
  show False
  proof (cases "a + 1 < n")
    case True
    with e show False by simp
  next
    case False
    with \<open>a < n\<close> have "a + 1 = n" by simp
    with e n show False by simp
  qed
qed

lemma activeHost_handle_Err:
  "activeHost (handle env c task h (Err err)) =
     (if useFailOver c \<and> 1 < length (hosts c) \<and> \<not> allowDirtyRead task \<and> activeHost c = h
      then (activeHost c + 1) mod length (hosts c) else activeHost c)"
  by (simp add: handle_def Let_def)

subsection \<open>The cursor after a transport error\<close>

text \<open>
  Claim C8: on a transport error of a task sent to host \<open>h\<close>, the callback advances the
  primary cursor by one modulo the number of hosts if and only if failover is in use,
  there is more than one host, the task is not a dirty read and the cursor still is
  \<open>h\<close>; in every state that a pool reaches from its constructor failover is in use
  exactly when the strategy is not \<open>ROUND_ROBIN\<close>, so under \<open>ROUND_ROBIN\<close> the error
  leaves the cursor where it is.
\<close>

theorem failover_advance_on_error:
  "activeHost (handle env c task h (Err err)) =
     (if useFailOver c \<and> 1 < length (hosts c) \<and> \<not> allowDirtyRead task \<and> activeHost c = h
      then (activeHost c + 1) mod length (hosts c) else activeHost c)
   \<and> (activeHost (handle env c task h (Err err)) \<noteq> activeHost c)
      = (useFailOver c \<and> 1 < length (hosts c) \<and> \<not> allowDirtyRead task \<and> activeHost c = h)
   \<and> useFailOver (exec env evs (new_Connection env u1 u2 cfg))
      = (loadBalancingStrategy (exec env evs (new_Connection env u1 u2 cfg)) \<noteq> ROUND_ROBIN)
   \<and> (loadBalancingStrategy (exec env evs (new_Connection env u1 u2 cfg)) = ROUND_ROBIN
      \<longrightarrow> activeHost (handle env (exec env evs (new_Connection env u1 u2 cfg)) task h (Err err))
          = activeHost (exec env evs (new_Connection env u1 u2 cfg)))"
proof -
  let ?c = "exec env evs (new_Connection env u1 u2 cfg)"
  have "settings ?c = settings (new_Connection env u1 u2 cfg)" by (rule settings_exec)
  then have uf: "useFailOver ?c = (loadBalancingStrategy ?c \<noteq> ROUND_ROBIN)"
    by (simp add: settings_new_Connection) (simp add: settings_def)
  have d: "(activeHost (handle env c task h (Err err)) \<noteq> activeHost c)
      = (useFailOver c \<and> 1 < length (hosts c) \<and> \<not> allowDirtyRead task \<and> activeHost c = h)"
    using advance_differs [of "length (hosts c)" "activeHost c"]
    by (auto simp: activeHost_handle_Err)
  from uf d show ?thesis by (simp add: activeHost_handle_Err)
qed

text \<open>
  Two hosts: under \<open>ROUND_ROBIN\<close> the cursor, at 1 after one request, stays at 1 on an
  error; under \<open>NONE\<close> the error of a task sent to host 0 moves the cursor from 0 to 1.
\<close>

theorem failover_advance_on_error_witness:
  "loadBalancingStrategy (exec example_env [Request plain_request]
      (new_Connection example_env 0 0 (example_config [''http://h1'', ''http://h2''] ROUND_ROBIN)))
     = ROUND_ROBIN
   \<and> activeHost (exec example_env [Request plain_request]
      (new_Connection example_env 0 0 (example_config [''http://h1'', ''http://h2''] ROUND_ROBIN))) = 1
   \<and> activeHost (handle example_env (exec example_env [Request plain_request]
      (new_Connection example_env 0 0 (example_config [''http://h1'', ''http://h2''] ROUND_ROBIN)))
        example_task 0 (Err (SystemError ''connect'' ''ECONNREFUSED''))) = 1
   \<and> activeHost (new_Connection example_env 0 0 (example_config [''http://h1'', ''http://h2''] NONE)) = 0
   \<and> activeHost (handle example_env
        (new_Connection example_env 0 0 (example_config [''http://h1'', ''http://h2''] NONE))
        example_task 0 (Err (SystemError ''connect'' ''ECONNREFUSED''))) = 1"
proof -
  let ?rr = "exec example_env [Request plain_request]
      (new_Connection example_env 0 0 (example_config [''http://h1'', ''http://h2''] ROUND_ROBIN))"
  let ?c = "new_Connection example_env 0 0 (example_config [''http://h1'', ''http://h2''] NONE)"
  let ?e = "SystemError ''connect'' ''ECONNREFUSED''"
  have s: "loadBalancingStrategy ?rr = ROUND_ROBIN"
    by (simp add: run_defs example_defs)
  have a: "activeHost ?rr = 1"
    by (simp add: run_defs example_defs)
  have n: "useFailOver ?c \<and> 1 < length (hosts ?c) \<and> \<not> allowDirtyRead example_task \<and> activeHost ?c = 0"
    by (simp add: run_defs example_defs)
  note inst = failover_advance_on_error [of example_env ?c example_task 0 ?e "[Request plain_request]" 0 0
      "example_config [''http://h1'', ''http://h2''] ROUND_ROBIN"]
  from inst s have r1: "activeHost (handle example_env ?rr example_task 0 (Err ?e)) = activeHost ?rr"
    by blast
  from inst n have "activeHost (handle example_env ?c example_task 0 (Err ?e))
      = (activeHost ?c + 1) mod length (hosts ?c)" by simp
  moreover have "(activeHost ?c + 1) mod length (hosts ?c) = 1"
    by (simp add: run_defs example_defs)
  ultimately have r2: "activeHost (handle example_env ?c example_task 0 (Err ?e)) = 1" by simp
  from s a r1 r2 n show ?thesis by simp
qed

subsection \<open>The redirect to the leader\<close>

text \<open>
  Claim C3: when the transport of a task ends with status 503 and a non-empty header
  \<open>x-arango-endpoint\<close>, the URL of the header is added to the host list (once), the index
  of its normalized form becomes the host of the task, the primary cursor moves to that
  index if and only if it still is the host the task was sent to, the task goes to the
  tail of the queue with its count of retries as it was, and no promise ends.
\<close>

theorem leader_redirect:
  assumes "statusCode res = Some 503"
    and "res_headers res ''x-arango-endpoint'' = Some u"
    and "u \<noteq> []"
  shows "sanitizeUrl env u \<in> set (urls (handle env c task h (Res res)))
    \<and> nat (indexOf (urls (handle env c task h (Res res))) (sanitizeUrl env u))
        < length (urls (handle env c task h (Res res)))
    \<and> urls (handle env c task h (Res res))
        ! nat (indexOf (urls (handle env c task h (Res res))) (sanitizeUrl env u)) = sanitizeUrl env u
    \<and> urls (handle env c task h (Res res))
        = (if sanitizeUrl env u \<in> set (urls c) then urls c else urls c @ [sanitizeUrl env u])
    \<and> hosts (handle env c task h (Res res))
        = (if sanitizeUrl env u \<in> set (urls c) then hosts c
           else hosts c @ [createRequest (sanitizeUrl env u)])
    \<and> queue (handle env c task h (Res res))
        = queue c @ [task\<lparr>host :=
            Some (nat (indexOf (urls (handle env c task h (Res res))) (sanitizeUrl env u)))\<rparr>]
    \<and> retries (last (queue (handle env c task h (Res res)))) = retries task
    \<and> activeHost (handle env c task h (Res res))
        = (if activeHost c = h
           then nat (indexOf (urls (handle env c task h (Res res))) (sanitizeUrl env u))
           else activeHost c)
    \<and> trace (handle env c task h (Res res)) = trace c"
proof -
  let ?su = "sanitizeUrl env u"
  from assms have l: "leader_of res = Some u"
    by (simp add: leader_of_def LEADER_ENDPOINT_HEADER_def)
  show ?thesis
  proof (cases "?su \<in> set (urls c)")
    case True
    from indexOf_present [OF True] True l show ?thesis
      by (simp add: handle_def addToHostList_single Let_def)
  next
    case False
    then have i: "indexOf (urls c @ [?su]) ?su = int (length (urls c))"
      by (rule indexOf_append_new)
    from False l show ?thesis
      by (simp add: handle_def addToHostList_single Let_def i)
  qed
qed

text \<open>
  The scenario of the specification: one host, a 503 that names \<open>http://h2\<close>. The host
  list becomes the two URLs, the task is pinned to index 1 and the cursor moves there.
\<close>

theorem leader_redirect_witness:
  "statusCode (redirect_response ''http://h2'') = Some 503
   \<and> res_headers (redirect_response ''http://h2'') ''x-arango-endpoint'' = Some ''http://h2''
   \<and> ''http://h2'' \<noteq> []
   \<and> urls (handle example_env example_connection example_task 0
         (Res (redirect_response ''http://h2''))) = [''http://h1'', ''http://h2'']
   \<and> map (\<lambda>t. (host t, retries t)) (queue (handle example_env example_connection example_task 0
         (Res (redirect_response ''http://h2'')))) = [(Some 1, 0)]
   \<and> activeHost (handle example_env example_connection example_task 0
         (Res (redirect_response ''http://h2''))) = 1"
proof -
  let ?res = "redirect_response ''http://h2''"
  let ?c = "handle example_env example_connection example_task 0 (Res ?res)"
  have h1: "statusCode ?res = Some 503" by (simp add: redirect_response_def)
  have h2: "res_headers ?res ''x-arango-endpoint'' = Some ''http://h2''"
    by (simp add: redirect_response_def)
  have h3: "''http://h2'' \<noteq> []" by simp
  have u0: "urls example_connection = [''http://h1'']"
    and q0: "queue example_connection = []"
    and a0: "activeHost example_connection = 0"
    and s: "sanitizeUrl example_env ''http://h2'' = ''http://h2''"
    and r0: "retries example_task = 0"
    by (simp_all add: run_defs example_defs)
  note inst = leader_redirect [OF h1 h2 h3, of example_env example_connection example_task 0]
  from inst u0 s have u: "urls ?c = [''http://h1'', ''http://h2'']" by simp
  then have i: "nat (indexOf (urls ?c) (sanitizeUrl example_env ''http://h2'')) = 1"
    by (simp add: s Let_def)
  from inst have "queue ?c = queue example_connection @ [example_task\<lparr>host :=
            Some (nat (indexOf (urls ?c) (sanitizeUrl example_env ''http://h2'')))\<rparr>]"
    by blast
  with q0 i r0 have q: "map (\<lambda>t. (host t, retries t)) (queue ?c) = [(Some 1, 0)]" by simp
  from inst have "activeHost ?c = (if activeHost example_connection = 0
           then nat (indexOf (urls ?c) (sanitizeUrl example_env ''http://h2''))
           else activeHost example_connection)" by blast
  with a0 i have a: "activeHost ?c = 1" by simp
  from h1 h2 h3 u q a show ?thesis by blast
qed

subsection \<open>The headers of a request\<close>

lemma overlay4: "overlay [a, b, c, d] = a ++ b ++ c ++ d"
  by (rule ext) (auto simp: overlay_def map_add_def split: option.splits)

lemma extraHeaders_layers:
  "extraHeaders env c ct =
     conn_headers c
     ++ [''content-type'' \<mapsto> ct, ''x-arango-version'' \<mapsto> toString env (JNum (arangoVersion c))]
     ++ (case transactionId c of
           None \<Rightarrow> Map.empty
         | Some t \<Rightarrow> if t = [] then Map.empty else [''x-arango-trx-id'' \<mapsto> t])"
  by (simp add: extraHeaders_def Let_def split: option.splits)

lemma headers_buildTask:
  "headers (options (buildTask env c ro)) =
     extraHeaders env c
       (fst (contentType_of env (case isBinary_opt ro of None \<Rightarrow> False | Some b \<Rightarrow> b) (body_opt ro)))
     ++ (case headers_opt ro of None \<Rightarrow> Map.empty | Some hs \<Rightarrow> hs)"
  by (simp add: buildTask_def split: prod.splits)

text \<open>
  Claim C5: the headers of the task that \<open>request\<close> puts on the queue are the overlay,
  from the lowest priority to the highest, of the default headers of the connection, the
  content type with \<open>x-arango-version\<close>, \<open>x-arango-trx-id\<close> when a transaction id is set
  (and not the empty text), and the headers of the caller; so a header of the caller wins
  over every other layer.
\<close>

theorem request_headers_layered:
  "request env ro c = runQueue env (c\<lparr>queue := queue c @ [buildTask env c ro]\<rparr>)
   \<and> headers (options (buildTask env c ro)) =
       overlay [conn_headers c,
                [''content-type'' \<mapsto>
                   fst (contentType_of env (case isBinary_opt ro of None \<Rightarrow> False | Some b \<Rightarrow> b)
                          (body_opt ro)),
                 ''x-arango-version'' \<mapsto> toString env (JNum (arangoVersion c))],
                (case transactionId c of
                   None \<Rightarrow> Map.empty
                 | Some t \<Rightarrow> if t = [] then Map.empty else [''x-arango-trx-id'' \<mapsto> t]),
                (case headers_opt ro of None \<Rightarrow> Map.empty | Some hs \<Rightarrow> hs)]
   \<and> (\<forall>hs k v. headers_opt ro = Some hs \<and> hs k = Some v
         \<longrightarrow> headers (options (buildTask env c ro)) k = Some v)"
proof (intro conjI allI impI)
  show "request env ro c = runQueue env (c\<lparr>queue := queue c @ [buildTask env c ro]\<rparr>)"
    by (simp add: request_def)
next
  show "headers (options (buildTask env c ro)) =
       overlay [conn_headers c,
                [''content-type'' \<mapsto>
                   fst (contentType_of env (case isBinary_opt ro of None \<Rightarrow> False | Some b \<Rightarrow> b)
                          (body_opt ro)),
                 ''x-arango-version'' \<mapsto> toString env (JNum (arangoVersion c))],
                (case transactionId c of
                   None \<Rightarrow> Map.empty
                 | Some t \<Rightarrow> if t = [] then Map.empty else [''x-arango-trx-id'' \<mapsto> t]),
                (case headers_opt ro of None \<Rightarrow> Map.empty | Some hs \<Rightarrow> hs)]"
    unfolding overlay4 headers_buildTask extraHeaders_layers ..
next
  fix hs k v
  assume "headers_opt ro = Some hs \<and> hs k = Some v"
  then show "headers (options (buildTask env c ro)) k = Some v"
    by (simp add: headers_buildTask)
qed

text \<open>
  A pool with default headers \<open>x-tag\<close> and \<open>content-type\<close> and transaction 7: the caller's
  \<open>x-tag\<close> and \<open>x-arango-trx-id\<close> win, the content type of the request wins over the
  default, and without a header of the caller the transaction id of the pool is sent.
\<close>

theorem request_headers_layered_witness:
  "headers_opt layered_request = Some [''x-arango-trx-id'' \<mapsto> ''9'', ''x-tag'' \<mapsto> ''mine'']
   \<and> [''x-arango-trx-id'' \<mapsto> ''9'', ''x-tag'' \<mapsto> ''mine''] ''x-tag'' = Some ''mine''
   \<and> headers (options (buildTask example_env layered_connection layered_request)) ''x-tag''
       = Some ''mine''
   \<and> headers (options (buildTask example_env layered_connection layered_request)) ''content-type''
       = Some ''text/plain''
   \<and> headers (options (buildTask example_env layered_connection plain_request)) ''x-arango-trx-id''
       = Some ''7''
   \<and> headers (options (buildTask example_env layered_connection layered_request)) ''x-arango-trx-id''
       = Some ''9''"
proof -
  let ?hs = "[''x-arango-trx-id'' \<mapsto> ''9'', ''x-tag'' \<mapsto> ''mine'']"
  have h1: "headers_opt layered_request = Some ?hs"
    by (simp add: layered_request_def plain_request_def)
  have h2: "?hs ''x-tag'' = Some ''mine''" by simp
  have h3: "?hs ''x-arango-trx-id'' = Some ''9''" by simp
  have d: "conn_headers layered_connection = [''x-tag'' \<mapsto> ''pool'', ''content-type'' \<mapsto> ''text/html'']"
    and t: "transactionId layered_connection = Some ''7''"
    by (simp_all add: layered_connection_def setTransactionId_def new_Connection_def
          addToHostList_def example_config_def Let_def)
  note inst = request_headers_layered [of example_env layered_request layered_connection]
  note inst0 = request_headers_layered [of example_env plain_request layered_connection]
  from inst h1 h2 have a: "headers (options (buildTask example_env layered_connection layered_request))
      ''x-tag'' = Some ''mine''" by blast
  from inst h1 h3 have b: "headers (options (buildTask example_env layered_connection layered_request))
      ''x-arango-trx-id'' = Some ''9''" by blast
  from inst have "headers (options (buildTask example_env layered_connection layered_request)) =
       overlay [conn_headers layered_connection,
                [''content-type'' \<mapsto>
                   fst (contentType_of example_env
                          (case isBinary_opt layered_request of None \<Rightarrow> False | Some b \<Rightarrow> b)
                          (body_opt layered_request)),
                 ''x-arango-version'' \<mapsto> toString example_env (JNum (arangoVersion layered_connection))],
                (case transactionId layered_connection of
                   None \<Rightarrow> Map.empty
                 | Some t \<Rightarrow> if t = [] then Map.empty else [''x-arango-trx-id'' \<mapsto> t]),
                (case headers_opt layered_request of None \<Rightarrow> Map.empty | Some hs \<Rightarrow> hs)]"
    by blast
  then have c: "headers (options (buildTask example_env layered_connection layered_request))
      ''content-type'' = Some ''text/plain''"
    by (simp add: d t h1 overlay_def contentType_of_def layered_request_def plain_request_def)
  from inst0 have "headers (options (buildTask example_env layered_connection plain_request)) =
       overlay [conn_headers layered_connection,
                [''content-type'' \<mapsto>
                   fst (contentType_of example_env
                          (case isBinary_opt plain_request of None \<Rightarrow> False | Some b \<Rightarrow> b)
                          (body_opt plain_request)),
                 ''x-arango-version'' \<mapsto> toString example_env (JNum (arangoVersion layered_connection))],
                (case transactionId layered_connection of
                   None \<Rightarrow> Map.empty
                 | Some t \<Rightarrow> if t = [] then Map.empty else [''x-arango-trx-id'' \<mapsto> t]),
                (case headers_opt plain_request of None \<Rightarrow> Map.empty | Some hs \<Rightarrow> hs)]"
    by blast
  then have e: "headers (options (buildTask example_env layered_connection plain_request))
      ''x-arango-trx-id'' = Some ''7''"
    by (simp add: d t overlay_def contentType_of_def plain_request_def)
  from h1 h2 a b c e show ?thesis by blast
qed

subsection \<open>Runs of the queue\<close>

lemma sent_hosts_append: "sent_hosts (xs @ ys) = sent_hosts xs @ sent_hosts ys"
  by (induction xs rule: sent_hosts.induct) simp_all

lemma settlements_append: "settlements (xs @ ys) = settlements xs @ settlements ys"
  by (induction xs rule: settlements.induct) simp_all

lemma runQueue_empty: "queue c = [] \<Longrightarrow> runQueue env c = c"
  by (simp add: runQueue.simps [of env c])

lemma runQueue_full: "maxTasks c \<le> activeTasks c \<Longrightarrow> runQueue env c = c"
  by (simp add: runQueue.simps [of env c] split: list.splits)

lemma runQueue_dispatch:
  assumes "queue c = t # rest" "activeTasks c < maxTasks c"
    and "prepare t rest c = (h, t1, c1)" "h < length (hosts c1)"
  shows "runQueue env c = c1\<lparr>inflight := inflight c1 @ [(t1, h)], trace := trace c1 @ [Sent t1 h]\<rparr>"
  using assms by (simp add: runQueue.simps [of env c])

lemma prepare_plain:
  "plain_task t \<Longrightarrow> loadBalancingStrategy c = ROUND_ROBIN \<Longrightarrow>
   prepare t rest c =
     (activeHost c, t,
      c\<lparr>queue := rest, activeHost := (activeHost c + 1) mod length (hosts c),
        activeTasks := activeTasks c + 1\<rparr>)"
  by (simp add: prepare_def chooseHost_def plain_task_def)

lemma nondirty_hosts_append: "nondirty_hosts (xs @ ys) = nondirty_hosts xs @ nondirty_hosts ys"
  by (induction xs rule: nondirty_hosts.induct) simp_all

lemma dirty_sends_append: "dirty_sends (xs @ ys) = dirty_sends xs @ dirty_sends ys"
  by (induction xs rule: dirty_sends.induct) simp_all

lemma prepare_dirty:
  "host t = None \<Longrightarrow> allowDirtyRead t \<Longrightarrow>
   prepare t rest c =
     (activeDirtyHost c, mark_dirty t,
      c\<lparr>queue := rest, activeDirtyHost := (activeDirtyHost c + 1) mod length (hosts c),
        activeTasks := activeTasks c + 1\<rparr>)"
  by (simp add: prepare_def chooseHost_def mark_dirty_def)

lemma prepare_primary:
  "host t = None \<Longrightarrow> \<not> allowDirtyRead t \<Longrightarrow> loadBalancingStrategy c \<noteq> ROUND_ROBIN \<Longrightarrow>
   prepare t rest c = (activeHost c, t, c\<lparr>queue := rest, activeTasks := activeTasks c + 1\<rparr>)"
  by (simp add: prepare_def chooseHost_def)

lemma runQueue_dirty:
  assumes "queue c = t # rest" "activeTasks c < maxTasks c" "host t = None" "allowDirtyRead t"
    and "activeDirtyHost c < length (hosts c)"
  shows "runQueue env c =
     c\<lparr>queue := rest, activeDirtyHost := (activeDirtyHost c + 1) mod length (hosts c),
       activeTasks := activeTasks c + 1,
       inflight := inflight c @ [(mark_dirty t, activeDirtyHost c)],
       trace := trace c @ [Sent (mark_dirty t) (activeDirtyHost c)]\<rparr>"
proof -
  let ?c1 = "c\<lparr>queue := rest, activeDirtyHost := (activeDirtyHost c + 1) mod length (hosts c),
        activeTasks := activeTasks c + 1\<rparr>"
  have p: "prepare t rest c = (activeDirtyHost c, mark_dirty t, ?c1)"
    using assms(3,4) by (rule prepare_dirty)
  have l: "activeDirtyHost c < length (hosts ?c1)" using assms(5) by simp
  from runQueue_dispatch [OF assms(1,2) p l] show ?thesis by simp
qed

lemma runQueue_primary:
  assumes "queue c = t # rest" "activeTasks c < maxTasks c" "host t = None" "\<not> allowDirtyRead t"
    and "loadBalancingStrategy c \<noteq> ROUND_ROBIN" "activeHost c < length (hosts c)"
  shows "runQueue env c =
     c\<lparr>queue := rest, activeTasks := activeTasks c + 1,
       inflight := inflight c @ [(t, activeHost c)],
       trace := trace c @ [Sent t (activeHost c)]\<rparr>"
proof -
  let ?c1 = "c\<lparr>queue := rest, activeTasks := activeTasks c + 1\<rparr>"
  have p: "prepare t rest c = (activeHost c, t, ?c1)"
    using assms(3,4,5) by (rule prepare_primary)
  have l: "activeHost c < length (hosts ?c1)" using assms(6) by simp
  from runQueue_dispatch [OF assms(1,2) p l] show ?thesis by simp
qed

subsection \<open>Round robin\<close>

lemma rr_inv_runQueue:
  assumes "rr_inv base s n c" "0 < n"
  shows "rr_inv base s n (runQueue env c)"
proof (cases "queue c")
  case Nil
  with assms show ?thesis by (simp add: runQueue_empty)
next
  case (Cons t rest)
  show ?thesis
  proof (cases "maxTasks c \<le> activeTasks c")
    case True
    with assms show ?thesis by (simp add: runQueue_full)
  next
    case False
    from assms(1) obtain m where rr: "loadBalancingStrategy c = ROUND_ROBIN"
      and n: "length (hosts c) = n"
      and q: "list_all plain_task (queue c)"
      and f: "list_all (\<lambda>p. plain_task (fst p)) (inflight c)"
      and tr: "sent_hosts (trace c) = base @ map (\<lambda>k. (s + k) mod n) [0..<m]"
      and a: "activeHost c = (s + m) mod n"
      by (auto simp: rr_inv_def)
    from q Cons have pt: "plain_task t" and pr: "list_all plain_task rest" by simp_all
    let ?c1 = "c\<lparr>queue := rest, activeHost := (activeHost c + 1) mod length (hosts c),
        activeTasks := activeTasks c + 1\<rparr>"
    have p: "prepare t rest c = (activeHost c, t, ?c1)"
      using pt rr by (rule prepare_plain)
    have less: "activeHost c < length (hosts ?c1)" using a n assms(2) by simp
    have act: "activeTasks c < maxTasks c" using False by simp
    have rq: "runQueue env c = ?c1\<lparr>inflight := inflight ?c1 @ [(t, activeHost c)],
        trace := trace ?c1 @ [Sent t (activeHost c)]\<rparr>"
      using Cons act p less by (rule runQueue_dispatch)
    have "sent_hosts (trace c @ [Sent t (activeHost c)])
        = base @ map (\<lambda>k. (s + k) mod n) [0..<Suc m]"
      by (simp add: sent_hosts_append tr a)
    moreover have "(activeHost c + 1) mod n = (s + Suc m) mod n"
      by (simp add: a mod_Suc_eq)
    ultimately show ?thesis
      unfolding rr_inv_def rq using rr n pr f pt
      by (auto simp del: upt_Suc)
  qed
qed

lemma plain_buildTask: "plain_event (Request ro) \<Longrightarrow> plain_task (buildTask env c ro)"
  by (auto simp: buildTask_def plain_task_def split: prod.splits)

lemma handle_plain_Res:
  "leader_of r = None \<Longrightarrow>
   handle env c t h (Res r) =
     c\<lparr>activeTasks := activeTasks c - 1,
       trace := trace c @ [deliver env t (r\<lparr>arangojsHostId := Some h\<rparr>)]\<rparr>"
  by (simp add: handle_def Let_def)

lemma deliver_sends_nothing:
  "sent_hosts [deliver env t r] = []"
  "nondirty_hosts [deliver env t r] = []"
  "dirty_sends [deliver env t r] = []"
  by (simp_all add: deliver_def split: sum.splits)

lemma list_all_take: "list_all P xs \<Longrightarrow> list_all P (take i xs)"
  by (auto simp: list_all_iff dest: in_set_takeD)

lemma list_all_drop: "list_all P xs \<Longrightarrow> list_all P (drop i xs)"
  by (auto simp: list_all_iff dest: in_set_dropD)

lemma rr_inv_step:
  assumes "rr_inv base s n c" "0 < n" "plain_event ev"
  shows "rr_inv base s n (step env ev c)"
proof (cases ev)
  case (Request ro)
  from assms(3) Request have "plain_task (buildTask env c ro)" by (simp add: plain_buildTask)
  with assms(1) have "rr_inv base s n (c\<lparr>queue := queue c @ [buildTask env c ro]\<rparr>)"
    by (simp add: rr_inv_def)
  then show ?thesis using Request assms(2) by (simp add: request_def rr_inv_runQueue)
next
  case (Complete i outcome)
  show ?thesis
  proof (cases "i < length (inflight c)")
    case False
    with Complete assms(1) show ?thesis by simp
  next
    case True
    from assms(3) Complete obtain r where o: "outcome = Res r" and l: "leader_of r = None"
      by (cases outcome) auto
    obtain t h where th: "inflight c ! i = (t, h)" by (cases "inflight c ! i") auto
    let ?c1 = "c\<lparr>inflight := take i (inflight c) @ drop (Suc i) (inflight c)\<rparr>"
    have hi: "rr_inv base s n (handle env ?c1 t h (Res r))"
      using assms(1) l
      by (auto simp: handle_plain_Res rr_inv_def sent_hosts_append deliver_sends_nothing
            list_all_take list_all_drop)
    then have "rr_inv base s n (runQueue env (handle env ?c1 t h (Res r)))"
      using assms(2) by (rule rr_inv_runQueue)
    with hi Complete True o th show ?thesis by (simp add: callback_def)
  qed
next
  case (SetHeader k v)
  with assms(1) show ?thesis by (cases v) (simp_all add: setHeader_def rr_inv_def)
next
  case (SetTransactionId t)
  with assms(1) show ?thesis by (simp add: setTransactionId_def rr_inv_def)
next
  case ClearTransactionId
  with assms(1) show ?thesis by (simp add: clearTransactionId_def rr_inv_def)
next
  case (AddToHostList us)
  with assms(3) show ?thesis by simp
qed

lemma rr_inv_exec:
  "rr_inv base s n c \<Longrightarrow> 0 < n \<Longrightarrow> list_all plain_event evs \<Longrightarrow> rr_inv base s n (exec env evs c)"
  unfolding exec_def
  by (induction evs arbitrary: c) (simp_all add: rr_inv_step)

text \<open>
  Claim C6: under \<open>ROUND_ROBIN\<close>, in a run of tasks with no host set that are not dirty
  reads, without transport errors and redirects, the transport calls go to the hosts
  \<open>(start + k) mod |hosts|\<close> for \<open>k = 0, 1, ...\<close> in the order of the calls, where \<open>start\<close> is
  the primary cursor before the run, and after \<open>m\<close> calls the cursor is
  \<open>(start + m) mod |hosts|\<close>: it advances in the step that chooses the host.
\<close>

theorem round_robin_hosts:
  assumes "loadBalancingStrategy c = ROUND_ROBIN"
    and "activeHost c < length (hosts c)"
    and "list_all plain_task (queue c)"
    and "list_all (\<lambda>p. plain_task (fst p)) (inflight c)"
    and "list_all plain_event evs"
  shows "sent_hosts (trace (exec env evs c)) =
           sent_hosts (trace c)
           @ map (\<lambda>k. (activeHost c + k) mod length (hosts c))
               [0..<length (sent_hosts (trace (exec env evs c))) - length (sent_hosts (trace c))]
         \<and> activeHost (exec env evs c) =
             (activeHost c
              + (length (sent_hosts (trace (exec env evs c))) - length (sent_hosts (trace c))))
             mod length (hosts c)"
proof -
  let ?n = "length (hosts c)"
  from assms(2) have pos: "0 < ?n" by (cases "hosts c") simp_all
  have "sent_hosts (trace c) = sent_hosts (trace c) @ map (\<lambda>k. (activeHost c + k) mod ?n) [0..<0]
      \<and> activeHost c = (activeHost c + 0) mod ?n"
    using assms(2) by simp
  then have "rr_inv (sent_hosts (trace c)) (activeHost c) ?n c"
    unfolding rr_inv_def using assms(1,3,4) by blast
  then have "rr_inv (sent_hosts (trace c)) (activeHost c) ?n (exec env evs c)"
    using pos assms(5) by (rule rr_inv_exec)
  then obtain m where
    tr: "sent_hosts (trace (exec env evs c)) =
         sent_hosts (trace c) @ map (\<lambda>k. (activeHost c + k) mod ?n) [0..<m]"
    and a: "activeHost (exec env evs c) = (activeHost c + m) mod ?n"
    by (auto simp: rr_inv_def)
  from tr have "length (sent_hosts (trace (exec env evs c))) - length (sent_hosts (trace c)) = m"
    by simp
  with tr a show ?thesis by simp
qed

text \<open>
  Three hosts and the cursor at 0: three requests one after the other go to the hosts 0,
  1 and 2, and the cursor is back at 0.
\<close>

theorem round_robin_hosts_witness:
  "loadBalancingStrategy (three_hosts ROUND_ROBIN) = ROUND_ROBIN
   \<and> activeHost (three_hosts ROUND_ROBIN) = 0
   \<and> length (hosts (three_hosts ROUND_ROBIN)) = 3
   \<and> list_all plain_task (queue (three_hosts ROUND_ROBIN))
   \<and> list_all (\<lambda>p. plain_task (fst p)) (inflight (three_hosts ROUND_ROBIN))
   \<and> list_all plain_event [Request plain_request, Request plain_request, Request plain_request]
   \<and> sent_hosts (trace (exec example_env
        [Request plain_request, Request plain_request, Request plain_request]
        (three_hosts ROUND_ROBIN))) = [0, 1, 2]
   \<and> activeHost (exec example_env
        [Request plain_request, Request plain_request, Request plain_request]
        (three_hosts ROUND_ROBIN)) = 0"
proof -
  let ?c = "three_hosts ROUND_ROBIN"
  let ?evs = "[Request plain_request, Request plain_request, Request plain_request]"
  have h1: "loadBalancingStrategy ?c = ROUND_ROBIN"
    and a0: "activeHost ?c = 0"
    and n: "length (hosts ?c) = 3"
    and h3: "list_all plain_task (queue ?c)"
    and h4: "list_all (\<lambda>p. plain_task (fst p)) (inflight ?c)"
    and t0: "sent_hosts (trace ?c) = []"
    by (simp_all add: three_hosts_def run_defs example_defs)
  have h2: "activeHost ?c < length (hosts ?c)" by (simp add: a0 n)
  have h5: "list_all plain_event ?evs" by (simp add: plain_request_def)
  have len: "length (sent_hosts (trace (exec example_env ?evs ?c))) = 3"
    by (simp add: three_hosts_def run_defs example_defs)
  note inst = round_robin_hosts [OF h1 h2 h3 h4 h5, of example_env]
  from inst have "sent_hosts (trace (exec example_env ?evs ?c)) =
      map (\<lambda>k. (0 + k) mod 3) [0..<3]"
    by (simp only: t0 a0 n len append_Nil diff_zero list.size)
  then have s: "sent_hosts (trace (exec example_env ?evs ?c)) = [0, 1, 2]"
    by (simp add: upt_rec)
  from inst have "activeHost (exec example_env ?evs ?c) = (0 + (3 - 0)) mod 3"
    by (simp only: t0 a0 n len list.size)
  then have a: "activeHost (exec example_env ?evs ?c) = 0" by simp
  from h1 a0 n h3 h4 h5 s a show ?thesis by blast
qed

subsection \<open>Dirty reads\<close>

lemma dr_inv_runQueue:
  assumes "dr_inv base bd a d n c" "0 < n" "a < n"
  shows "dr_inv base bd a d n (runQueue env c)"
proof (cases "queue c")
  case Nil
  with assms show ?thesis by (simp add: runQueue_empty)
next
  case (Cons t rest)
  show ?thesis
  proof (cases "maxTasks c \<le> activeTasks c")
    case True
    with assms show ?thesis by (simp add: runQueue_full)
  next
    case False
    then have act: "activeTasks c < maxTasks c" by simp
    from assms(1) obtain m1 m2 where st: "loadBalancingStrategy c \<noteq> ROUND_ROBIN"
      and n: "length (hosts c) = n"
      and q: "list_all unpinned (queue c)"
      and f: "list_all (\<lambda>p. unpinned (fst p)) (inflight c)"
      and a: "activeHost c = a"
      and nd: "nondirty_hosts (trace c) = base @ replicate m1 a"
      and ds: "dirty_sends (trace c) = bd @ map (\<lambda>k. ((d + k) mod n, Some ''true'')) [0..<m2]"
      and dc: "activeDirtyHost c = (d + m2) mod n"
      by (auto simp: dr_inv_def)
    from q Cons have ut: "host t = None" and ur: "list_all unpinned rest"
      by (simp_all add: unpinned_def)
    show ?thesis
    proof (cases "allowDirtyRead t")
      case True
      have l: "activeDirtyHost c < length (hosts c)" using dc n assms(2) by simp
      have rq: "runQueue env c =
         c\<lparr>queue := rest, activeDirtyHost := (activeDirtyHost c + 1) mod length (hosts c),
           activeTasks := activeTasks c + 1,
           inflight := inflight c @ [(mark_dirty t, activeDirtyHost c)],
           trace := trace c @ [Sent (mark_dirty t) (activeDirtyHost c)]\<rparr>"
        using Cons act ut True l by (rule runQueue_dirty)
      have m: "allowDirtyRead (mark_dirty t)" "host (mark_dirty t) = None"
        "headers (options (mark_dirty t)) ''x-arango-allow-dirty-read'' = Some ''true''"
        using True ut by (simp_all add: mark_dirty_def)
      have "dirty_sends (trace c @ [Sent (mark_dirty t) (activeDirtyHost c)])
          = bd @ map (\<lambda>k. ((d + k) mod n, Some ''true'')) [0..<Suc m2]"
        by (simp add: dirty_sends_append ds dc m)
      moreover have "(activeDirtyHost c + 1) mod n = (d + Suc m2) mod n"
        by (simp add: dc mod_Suc_eq)
      moreover have "nondirty_hosts (trace c @ [Sent (mark_dirty t) (activeDirtyHost c)])
          = base @ replicate m1 a"
        by (simp add: nondirty_hosts_append nd m)
      ultimately show ?thesis
        unfolding dr_inv_def rq using st n ur f a m
        by (auto simp del: upt_Suc simp: unpinned_def)
    next
      case False
      have l: "activeHost c < length (hosts c)" using a n assms(3) by simp
      have rq: "runQueue env c =
         c\<lparr>queue := rest, activeTasks := activeTasks c + 1,
           inflight := inflight c @ [(t, activeHost c)],
           trace := trace c @ [Sent t (activeHost c)]\<rparr>"
        using Cons act ut False st l by (rule runQueue_primary)
      have "nondirty_hosts (trace c @ [Sent t (activeHost c)]) = base @ replicate (Suc m1) a"
        by (simp add: nondirty_hosts_append nd False a replicate_append_same)
      moreover have "dirty_sends (trace c @ [Sent t (activeHost c)])
          = bd @ map (\<lambda>k. ((d + k) mod n, Some ''true'')) [0..<m2]"
        by (simp add: dirty_sends_append ds False)
      ultimately show ?thesis
        unfolding dr_inv_def rq using st n ur f a dc ut
        by (auto simp del: upt_Suc replicate_Suc simp: unpinned_def)
    qed
  qed
qed

lemma unpinned_buildTask: "host_opt ro = None \<Longrightarrow> unpinned (buildTask env c ro)"
  by (auto simp: buildTask_def unpinned_def split: prod.splits)

lemma dr_inv_step:
  assumes "dr_inv base bd a d n c" "0 < n" "a < n" "calm_event ev"
  shows "dr_inv base bd a d n (step env ev c)"
proof (cases ev)
  case (Request ro)
  from assms(4) Request have "unpinned (buildTask env c ro)" by (simp add: unpinned_buildTask)
  with assms(1) have "dr_inv base bd a d n (c\<lparr>queue := queue c @ [buildTask env c ro]\<rparr>)"
    by (simp add: dr_inv_def)
  then show ?thesis using Request assms(2,3) by (simp add: request_def dr_inv_runQueue)
next
  case (Complete i outcome)
  show ?thesis
  proof (cases "i < length (inflight c)")
    case False
    with Complete assms(1) show ?thesis by simp
  next
    case True
    from assms(4) Complete obtain r where o: "outcome = Res r" and l: "leader_of r = None"
      by (cases outcome) auto
    obtain t h where th: "inflight c ! i = (t, h)" by (cases "inflight c ! i") auto
    let ?c1 = "c\<lparr>inflight := take i (inflight c) @ drop (Suc i) (inflight c)\<rparr>"
    have hi: "dr_inv base bd a d n (handle env ?c1 t h (Res r))"
      using assms(1) l
      by (auto simp: handle_plain_Res dr_inv_def nondirty_hosts_append dirty_sends_append
            deliver_sends_nothing list_all_take list_all_drop)
    then have "dr_inv base bd a d n (runQueue env (handle env ?c1 t h (Res r)))"
      using assms(2,3) by (rule dr_inv_runQueue)
    with hi Complete True o th show ?thesis by (simp add: callback_def)
  qed
next
  case (SetHeader k v)
  with assms(1) show ?thesis by (cases v) (simp_all add: setHeader_def dr_inv_def)
next
  case (SetTransactionId t)
  with assms(1) show ?thesis by (simp add: setTransactionId_def dr_inv_def)
next
  case ClearTransactionId
  with assms(1) show ?thesis by (simp add: clearTransactionId_def dr_inv_def)
next
  case (AddToHostList us)
  with assms(4) show ?thesis by simp
qed

lemma dr_inv_exec:
  "dr_inv base bd a d n c \<Longrightarrow> 0 < n \<Longrightarrow> a < n \<Longrightarrow> list_all calm_event evs
     \<Longrightarrow> dr_inv base bd a d n (exec env evs c)"
  unfolding exec_def
  by (induction evs arbitrary: c) (simp_all add: dr_inv_step)

text \<open>
  Claim C7: a task taken from the queue that allows a dirty read and has no host set is
  sent to the host of the dirty-read cursor, with the header
  \<open>x-arango-allow-dirty-read: true\<close>; the dirty-read cursor then advances by one modulo
  the number of hosts and the primary cursor stays. So in a run without errors and
  redirects under a strategy other than \<open>ROUND_ROBIN\<close> (\<open>NONE\<close> in particular), every
  task that is no dirty read goes to the host the primary cursor pointed at before the
  run, and the dirty reads go round the hosts from the dirty-read cursor on.
\<close>

theorem dirty_read_selection:
  "(queue c = t # rest \<and> activeTasks c < maxTasks c \<and> host t = None \<and> allowDirtyRead t
      \<and> activeDirtyHost c < length (hosts c)
    \<longrightarrow> runQueue env c =
          c\<lparr>queue := rest, activeDirtyHost := (activeDirtyHost c + 1) mod length (hosts c),
            activeTasks := activeTasks c + 1,
            inflight := inflight c @ [(mark_dirty t, activeDirtyHost c)],
            trace := trace c @ [Sent (mark_dirty t) (activeDirtyHost c)]\<rparr>
        \<and> headers (options (mark_dirty t)) ''x-arango-allow-dirty-read'' = Some ''true''
        \<and> activeHost (runQueue env c) = activeHost c)
   \<and> (loadBalancingStrategy c \<noteq> ROUND_ROBIN
      \<and> activeHost c < length (hosts c) \<and> activeDirtyHost c < length (hosts c)
      \<and> list_all unpinned (queue c) \<and> list_all (\<lambda>p. unpinned (fst p)) (inflight c)
      \<and> list_all calm_event evs
    \<longrightarrow> activeHost (exec env evs c) = activeHost c
        \<and> nondirty_hosts (trace (exec env evs c)) =
            nondirty_hosts (trace c)
            @ replicate (length (nondirty_hosts (trace (exec env evs c)))
                         - length (nondirty_hosts (trace c))) (activeHost c)
        \<and> dirty_sends (trace (exec env evs c)) =
            dirty_sends (trace c)
            @ map (\<lambda>k. ((activeDirtyHost c + k) mod length (hosts c), Some ''true''))
                [0..<length (dirty_sends (trace (exec env evs c)))
                      - length (dirty_sends (trace c))])"
proof (intro conjI impI)
  assume a: "queue c = t # rest \<and> activeTasks c < maxTasks c \<and> host t = None \<and> allowDirtyRead t
      \<and> activeDirtyHost c < length (hosts c)"
  then have rq: "runQueue env c =
          c\<lparr>queue := rest, activeDirtyHost := (activeDirtyHost c + 1) mod length (hosts c),
            activeTasks := activeTasks c + 1,
            inflight := inflight c @ [(mark_dirty t, activeDirtyHost c)],
            trace := trace c @ [Sent (mark_dirty t) (activeDirtyHost c)]\<rparr>"
    by (intro runQueue_dirty) simp_all
  then show "runQueue env c =
          c\<lparr>queue := rest, activeDirtyHost := (activeDirtyHost c + 1) mod length (hosts c),
            activeTasks := activeTasks c + 1,
            inflight := inflight c @ [(mark_dirty t, activeDirtyHost c)],
            trace := trace c @ [Sent (mark_dirty t) (activeDirtyHost c)]\<rparr>" .
  show "headers (options (mark_dirty t)) ''x-arango-allow-dirty-read'' = Some ''true''"
    by (simp add: mark_dirty_def)
  show "activeHost (runQueue env c) = activeHost c"
    by (simp add: rq)
next
  assume b: "loadBalancingStrategy c \<noteq> ROUND_ROBIN
      \<and> activeHost c < length (hosts c) \<and> activeDirtyHost c < length (hosts c)
      \<and> list_all unpinned (queue c) \<and> list_all (\<lambda>p. unpinned (fst p)) (inflight c)
      \<and> list_all calm_event evs"
  let ?n = "length (hosts c)"
  let ?a = "activeHost c"
  let ?d = "activeDirtyHost c"
  from b have pos: "0 < ?n" by (cases "hosts c") simp_all
  have "nondirty_hosts (trace c) = nondirty_hosts (trace c) @ replicate 0 ?a" by simp
  moreover have "dirty_sends (trace c) =
      dirty_sends (trace c) @ map (\<lambda>k. ((?d + k) mod ?n, Some ''true'')) [0..<0]
      \<and> ?d = (?d + 0) mod ?n"
    using b by simp
  ultimately have "dr_inv (nondirty_hosts (trace c)) (dirty_sends (trace c)) ?a ?d ?n c"
    unfolding dr_inv_def using b by blast
  then have "dr_inv (nondirty_hosts (trace c)) (dirty_sends (trace c)) ?a ?d ?n (exec env evs c)"
    using pos b by (intro dr_inv_exec) simp_all
  then obtain m1 m2 where a: "activeHost (exec env evs c) = ?a"
    and nd: "nondirty_hosts (trace (exec env evs c)) = nondirty_hosts (trace c) @ replicate m1 ?a"
    and ds: "dirty_sends (trace (exec env evs c)) =
        dirty_sends (trace c) @ map (\<lambda>k. ((?d + k) mod ?n, Some ''true'')) [0..<m2]"
    by (auto simp: dr_inv_def)
  from nd have l1: "length (nondirty_hosts (trace (exec env evs c)))
      - length (nondirty_hosts (trace c)) = m1" by simp
  from ds have l2: "length (dirty_sends (trace (exec env evs c)))
      - length (dirty_sends (trace c)) = m2" by simp
  show "activeHost (exec env evs c) = activeHost c" by (rule a)
  show "nondirty_hosts (trace (exec env evs c)) =
            nondirty_hosts (trace c)
            @ replicate (length (nondirty_hosts (trace (exec env evs c)))
                         - length (nondirty_hosts (trace c))) (activeHost c)"
    unfolding l1 by (rule nd)
  show "dirty_sends (trace (exec env evs c)) =
            dirty_sends (trace c)
            @ map (\<lambda>k. ((activeDirtyHost c + k) mod length (hosts c), Some ''true''))
                [0..<length (dirty_sends (trace (exec env evs c)))
                      - length (dirty_sends (trace c))]"
    unfolding l2 by (rule ds)
qed

text \<open>
  Three hosts under \<open>NONE\<close>: of three dirty reads and three other requests in turn, the
  dirty reads go to the hosts 0, 1 and 2 with the header, the others all to host 0.
\<close>

theorem dirty_read_selection_witness:
  "queue dirty_queued = [dirty_task] \<and> activeTasks dirty_queued < maxTasks dirty_queued
   \<and> host dirty_task = None \<and> allowDirtyRead dirty_task
   \<and> activeDirtyHost dirty_queued < length (hosts dirty_queued)
   \<and> activeDirtyHost (runQueue example_env dirty_queued) = 1
   \<and> activeHost (runQueue example_env dirty_queued) = 0
   \<and> sent_hosts (trace (runQueue example_env dirty_queued)) = [0]
   \<and> loadBalancingStrategy (three_hosts NONE) \<noteq> ROUND_ROBIN
   \<and> activeHost (three_hosts NONE) < length (hosts (three_hosts NONE))
   \<and> activeDirtyHost (three_hosts NONE) < length (hosts (three_hosts NONE))
   \<and> list_all unpinned (queue (three_hosts NONE))
   \<and> list_all (\<lambda>p. unpinned (fst p)) (inflight (three_hosts NONE))
   \<and> list_all calm_event interleaved
   \<and> activeHost (exec example_env interleaved (three_hosts NONE)) = 0
   \<and> nondirty_hosts (trace (exec example_env interleaved (three_hosts NONE))) = [0, 0, 0]
   \<and> dirty_sends (trace (exec example_env interleaved (three_hosts NONE)))
       = [(0, Some ''true''), (1, Some ''true''), (2, Some ''true'')]"
proof -
  let ?q = dirty_queued
  let ?c = "three_hosts NONE"
  have q1: "queue ?q = [dirty_task]" by (simp add: dirty_queued_def)
  have q2: "activeTasks ?q < maxTasks ?q"
    and q5: "activeDirtyHost ?q < length (hosts ?q)"
    and qd: "activeDirtyHost ?q = 0" and qa: "activeHost ?q = 0" and qn: "length (hosts ?q) = 3"
    and qt: "trace ?q = []"
    by (simp_all add: scenario_defs run_defs example_defs)
  have q3: "host dirty_task = None" and q4: "allowDirtyRead dirty_task"
    by (simp_all add: scenario_defs buildTask_def plain_request_def split: prod.splits)
  have c1: "loadBalancingStrategy ?c \<noteq> ROUND_ROBIN"
    and c2: "activeHost ?c < length (hosts ?c)"
    and c3: "activeDirtyHost ?c < length (hosts ?c)"
    and c4: "list_all unpinned (queue ?c)"
    and c5: "list_all (\<lambda>p. unpinned (fst p)) (inflight ?c)"
    and ca: "activeHost ?c = 0" and cd: "activeDirtyHost ?c = 0" and cn: "length (hosts ?c) = 3"
    and ct: "trace ?c = []"
    by (simp_all add: scenario_defs run_defs example_defs)
  have c6: "list_all calm_event interleaved"
    by (simp add: interleaved_def dirty_request_def plain_request_def)
  have l1: "length (nondirty_hosts (trace (exec example_env interleaved ?c))) = 3"
    by (simp add: scenario_defs run_defs example_defs)
  have l2: "length (dirty_sends (trace (exec example_env interleaved ?c))) = 3"
    by (simp add: scenario_defs run_defs example_defs)
  note inst = dirty_read_selection [of ?q dirty_task "[]" example_env]
  note inst2 = dirty_read_selection [of ?c _ _ example_env interleaved]
  from inst q1 q2 q3 q4 q5 have rq: "runQueue example_env ?q =
          ?q\<lparr>queue := [], activeDirtyHost := (activeDirtyHost ?q + 1) mod length (hosts ?q),
            activeTasks := activeTasks ?q + 1,
            inflight := inflight ?q @ [(mark_dirty dirty_task, activeDirtyHost ?q)],
            trace := trace ?q @ [Sent (mark_dirty dirty_task) (activeDirtyHost ?q)]\<rparr>"
    by blast
  have r1: "activeDirtyHost (runQueue example_env ?q) = 1"
    and r2: "activeHost (runQueue example_env ?q) = 0"
    and r3: "sent_hosts (trace (runQueue example_env ?q)) = [0]"
    unfolding rq by (simp_all add: qd qa qn qt)
  from inst2 c1 c2 c3 c4 c5 c6 have e1: "activeHost (exec example_env interleaved ?c) = activeHost ?c"
    and e2: "nondirty_hosts (trace (exec example_env interleaved ?c)) =
            nondirty_hosts (trace ?c)
            @ replicate (length (nondirty_hosts (trace (exec example_env interleaved ?c)))
                         - length (nondirty_hosts (trace ?c))) (activeHost ?c)"
    and e3: "dirty_sends (trace (exec example_env interleaved ?c)) =
            dirty_sends (trace ?c)
            @ map (\<lambda>k. ((activeDirtyHost ?c + k) mod length (hosts ?c), Some ''true''))
                [0..<length (dirty_sends (trace (exec example_env interleaved ?c)))
                      - length (dirty_sends (trace ?c))]"
    by blast+
  from e1 have f1: "activeHost (exec example_env interleaved ?c) = 0" by (simp add: ca)
  from e2 have f2: "nondirty_hosts (trace (exec example_env interleaved ?c)) = [0, 0, 0]"
    by (simp add: l1 ct ca numeral_3_eq_3)
  from e3 have "dirty_sends (trace (exec example_env interleaved ?c)) =
      map (\<lambda>k. ((0 + k) mod 3, Some ''true'')) [0..<3]"
    by (simp only: l2 ct cd cn dirty_sends.simps append_Nil list.size diff_zero)
  then have f3: "dirty_sends (trace (exec example_env interleaved ?c))
       = [(0, Some ''true''), (1, Some ''true''), (2, Some ''true'')]"
    by (simp add: upt_rec)
  from q1 q2 q3 q4 q5 r1 r2 r3 c1 c2 c3 c4 c5 c6 f1 f2 f3 show ?thesis by blast
qed

subsection \<open>Retries after a refused connection\<close>

lemma retryable_refused:
  "retryable c t connection_refused =
     ((host t = None \<or> host t = Some 0) \<and> shouldRetry c \<and> retries t < effectiveMax c)"
  by (simp add: retryable_def connection_refused_def)

lemma effectiveMax_cong:
  "maxRetries c' = maxRetries c \<Longrightarrow> length (hosts c') = length (hosts c)
     \<Longrightarrow> effectiveMax c' = effectiveMax c"
  by (simp add: effectiveMax_def)

lemma effectiveMax_upd:
  "effectiveMax (c\<lparr>queue := q\<rparr>) = effectiveMax c"
  "effectiveMax (c\<lparr>inflight := i\<rparr>) = effectiveMax c"
  "effectiveMax (c\<lparr>trace := tr\<rparr>) = effectiveMax c"
  "effectiveMax (c\<lparr>activeTasks := x\<rparr>) = effectiveMax c"
  "effectiveMax (c\<lparr>activeHost := y\<rparr>) = effectiveMax c"
  "effectiveMax (c\<lparr>activeDirtyHost := z\<rparr>) = effectiveMax c"
  by (simp_all add: effectiveMax_def)

lemma retryable_upd:
  "retryable (c\<lparr>activeTasks := x\<rparr>) t e = retryable c t e"
  "retryable (c\<lparr>activeHost := y\<rparr>) t e = retryable c t e"
  by (simp_all add: retryable_def effectiveMax_def)

lemma handle_refused_retry:
  assumes "host t = None" "shouldRetry c" "retries t < effectiveMax c"
  shows "queue (handle env c t h (Err connection_refused)) = queue c @ [t\<lparr>retries := retries t + 1\<rparr>]"
    and "trace (handle env c t h (Err connection_refused)) = trace c"
    and "inflight (handle env c t h (Err connection_refused)) = inflight c"
    and "activeTasks (handle env c t h (Err connection_refused)) = activeTasks c - 1"
    and "hosts (handle env c t h (Err connection_refused)) = hosts c"
    and "activeDirtyHost (handle env c t h (Err connection_refused)) = activeDirtyHost c"
    and "activeHost c < length (hosts c) \<Longrightarrow>
           activeHost (handle env c t h (Err connection_refused)) < length (hosts c)"
proof -
  have r: "retryable c t connection_refused" using assms by (simp add: retryable_refused)
  show "queue (handle env c t h (Err connection_refused)) = queue c @ [t\<lparr>retries := retries t + 1\<rparr>]"
    and "trace (handle env c t h (Err connection_refused)) = trace c"
    and "inflight (handle env c t h (Err connection_refused)) = inflight c"
    and "activeTasks (handle env c t h (Err connection_refused)) = activeTasks c - 1"
    and "hosts (handle env c t h (Err connection_refused)) = hosts c"
    and "activeDirtyHost (handle env c t h (Err connection_refused)) = activeDirtyHost c"
    using r by (simp_all add: handle_def Let_def retryable_upd)
  assume "activeHost c < length (hosts c)"
  then have "0 < length (hosts c)" by (cases "hosts c") simp_all
  then have "(activeHost c + 1) mod length (hosts c) < length (hosts c)" by simp
  with \<open>activeHost c < length (hosts c)\<close> r
  show "activeHost (handle env c t h (Err connection_refused)) < length (hosts c)"
    by (auto simp add: handle_def Let_def retryable_upd)
qed

lemma handle_refused_reject:
  assumes "host t = None" "\<not> retries t < effectiveMax c"
  shows "queue (handle env c t h (Err connection_refused)) = queue c"
    and "trace (handle env c t h (Err connection_refused))
           = trace c @ [Settled t (RejectTransport connection_refused)]"
    and "inflight (handle env c t h (Err connection_refused)) = inflight c"
proof -
  have r: "\<not> retryable c t connection_refused" using assms by (simp add: retryable_refused)
  then show "queue (handle env c t h (Err connection_refused)) = queue c"
    and "trace (handle env c t h (Err connection_refused))
           = trace c @ [Settled t (RejectTransport connection_refused)]"
    and "inflight (handle env c t h (Err connection_refused)) = inflight c"
    by (simp_all add: handle_def Let_def retryable_upd)
qed

lemma handle_no_retry:
  "\<not> shouldRetry c \<Longrightarrow>
     queue (handle env c t h (Err err)) = queue c
     \<and> trace (handle env c t h (Err err)) = trace c @ [Settled t (RejectTransport err)]"
  by (simp add: handle_def Let_def retryable_def)

text \<open>What \<open>_runQueue\<close> does with a task with no host set, the cursors being inside the list.\<close>

lemma prepare_unpinned:
  assumes "host t = None" "activeHost c < length (hosts c)" "activeDirtyHost c < length (hosts c)"
  obtains h t1 c1 where "prepare t rest c = (h, t1, c1)"
    and "h < length (hosts c1)" and "host t1 = None" and "retries t1 = retries t"
    and "queue c1 = rest" and "inflight c1 = inflight c" and "trace c1 = trace c"
    and "activeTasks c1 = activeTasks c + 1" and "hosts c1 = hosts c"
    and "activeHost c1 < length (hosts c)" and "activeDirtyHost c1 < length (hosts c)"
    and "shouldRetry c1 = shouldRetry c" and "maxRetries c1 = maxRetries c"
    and "maxTasks c1 = maxTasks c"
proof -
  obtain h t1 c1 where p: "prepare t rest c = (h, t1, c1)"
    by (cases "prepare t rest c") auto
  from assms have pos: "0 < length (hosts c)" by (cases "hosts c") simp_all
  from p assms pos
  have "h < length (hosts c1) \<and> host t1 = None \<and> retries t1 = retries t
    \<and> queue c1 = rest \<and> inflight c1 = inflight c \<and> trace c1 = trace c
    \<and> activeTasks c1 = activeTasks c + 1 \<and> hosts c1 = hosts c
    \<and> activeHost c1 < length (hosts c) \<and> activeDirtyHost c1 < length (hosts c)
    \<and> shouldRetry c1 = shouldRetry c \<and> maxRetries c1 = maxRetries c
    \<and> maxTasks c1 = maxTasks c"
    by (auto simp: prepare_def chooseHost_def split: if_splits)
  with p that show thesis by blast
qed

lemma retrying_dispatch:
  assumes "queue c = [t]" "inflight c = []" "host t = None" "retries t = int k"
    and "shouldRetry c" "activeTasks c < maxTasks c"
    and "activeHost c < n" "activeDirtyHost c < n" "length (hosts c) = n"
    and "effectiveMax c = e" "settlements (trace c) = st" "length (sent_hosts (trace c)) = s0 + k"
  shows "retrying k n e st s0 (runQueue env c)"
proof -
  from assms(3,7,8,9) obtain h t1 c1 where p: "prepare t [] c = (h, t1, c1)"
    and f: "h < length (hosts c1)" "host t1 = None" "retries t1 = retries t"
      "queue c1 = []" "inflight c1 = inflight c" "trace c1 = trace c"
      "activeTasks c1 = activeTasks c + 1" "hosts c1 = hosts c"
      "activeHost c1 < length (hosts c)" "activeDirtyHost c1 < length (hosts c)"
      "shouldRetry c1 = shouldRetry c" "maxRetries c1 = maxRetries c"
      "maxTasks c1 = maxTasks c"
    by (auto elim: prepare_unpinned [of t c "[]"])
  have rq: "runQueue env c = c1\<lparr>inflight := inflight c1 @ [(t1, h)], trace := trace c1 @ [Sent t1 h]\<rparr>"
    using assms(1,6) p f(1) by (rule runQueue_dispatch)
  have em: "effectiveMax c1 = effectiveMax c"
    using f by (intro effectiveMax_cong) simp_all
  show ?thesis
    unfolding retrying_def rq using f assms em
    by (simp add: sent_hosts_append settlements_append effectiveMax_upd)
qed

lemma retrying_step:
  assumes "retrying k n e st s0 c" "int k < e"
  shows "retrying (Suc k) n e st s0 (step env (Complete 0 (Err connection_refused)) c)"
proof -
  from assms(1) obtain t h where q: "queue c = []" and i: "inflight c = [(t, h)]"
    and ht: "host t = None" and rt: "retries t = int k"
    and sr: "shouldRetry c" and act: "activeTasks c \<le> maxTasks c"
    and a: "activeHost c < n" and d: "activeDirtyHost c < n" and n: "length (hosts c) = n"
    and em: "effectiveMax c = e" and st: "settlements (trace c) = st"
    and sh: "length (sent_hosts (trace c)) = s0 + k + 1"
    by (auto simp: retrying_def)
  let ?c0 = "c\<lparr>inflight := []\<rparr>"
  let ?c1 = "handle env ?c0 t h (Err connection_refused)"
  have em0: "effectiveMax ?c0 = e" using em by (simp add: effectiveMax_upd)
  have r: "retries t < effectiveMax ?c0" using rt assms(2) em0 by simp
  have sr0: "shouldRetry ?c0" using sr by simp
  note hr = handle_refused_retry [OF ht sr0 r, of env h]
  have s1: "step env (Complete 0 (Err connection_refused)) c = runQueue env ?c1"
    using i by (simp add: callback_def escapes_def)
  have "retryable ?c0 t connection_refused" using ht sr0 r by (simp add: retryable_refused)
  then have sett: "shouldRetry ?c1 = shouldRetry ?c0 \<and> maxRetries ?c1 = maxRetries ?c0
      \<and> maxTasks ?c1 = maxTasks ?c0"
    by (simp add: handle_def Let_def retryable_upd)
  have "effectiveMax ?c1 = effectiveMax ?c0"
    using sett hr(5) by (intro effectiveMax_cong) simp_all
  with em0 have em1: "effectiveMax ?c1 = e" by simp
  have "retrying (Suc k) n e st s0 (runQueue env ?c1)"
  proof (rule retrying_dispatch [where t = "t\<lparr>retries := retries t + 1\<rparr>"])
    show "queue ?c1 = [t\<lparr>retries := retries t + 1\<rparr>]" using hr(1) q by simp
    show "inflight ?c1 = []" using hr(3) by simp
    show "host (t\<lparr>retries := retries t + 1\<rparr>) = None" using ht by simp
    show "retries (t\<lparr>retries := retries t + 1\<rparr>) = int (Suc k)" using rt by simp
    show "shouldRetry ?c1" using sett sr by simp
    show "activeTasks ?c1 < maxTasks ?c1" using hr(4) sett act by simp
    show "activeHost ?c1 < n" using hr(7) a n by simp
    show "activeDirtyHost ?c1 < n" using hr(6) d by simp
    show "length (hosts ?c1) = n" using hr(5) n by simp
    show "effectiveMax ?c1 = e" by (rule em1)
    show "settlements (trace ?c1) = st" using hr(2) st by simp
    show "length (sent_hosts (trace ?c1)) = s0 + Suc k" using hr(2) sh by simp
  qed
  with s1 show ?thesis by simp
qed

lemma retrying_end:
  assumes "retrying k n e st s0 c" "\<not> int k < e"
  shows "queue (step env (Complete 0 (Err connection_refused)) c) = []
    \<and> inflight (step env (Complete 0 (Err connection_refused)) c) = []
    \<and> settlements (trace (step env (Complete 0 (Err connection_refused)) c))
        = st @ [RejectTransport connection_refused]
    \<and> length (sent_hosts (trace (step env (Complete 0 (Err connection_refused)) c))) = s0 + k + 1"
proof -
  from assms(1) obtain t h where q: "queue c = []" and i: "inflight c = [(t, h)]"
    and ht: "host t = None" and rt: "retries t = int k"
    and em: "effectiveMax c = e" and st: "settlements (trace c) = st"
    and sh: "length (sent_hosts (trace c)) = s0 + k + 1"
    by (auto simp: retrying_def)
  let ?c0 = "c\<lparr>inflight := []\<rparr>"
  let ?c1 = "handle env ?c0 t h (Err connection_refused)"
  have em0: "effectiveMax ?c0 = e" using em by (simp add: effectiveMax_upd)
  have r: "\<not> retries t < effectiveMax ?c0" using rt assms(2) em0 by simp
  note hr = handle_refused_reject [OF ht r, of env h]
  have s1: "step env (Complete 0 (Err connection_refused)) c = runQueue env ?c1"
    using i by (simp add: callback_def escapes_def)
  have "queue ?c1 = []" using hr(1) q by simp
  then have "runQueue env ?c1 = ?c1" by (rule runQueue_empty)
  with s1 hr q st sh show ?thesis
    by (simp add: sent_hosts_append settlements_append)
qed

lemma exec_snoc: "exec env (evs @ [ev]) c = step env ev (exec env evs c)"
  by (simp add: exec_def)

lemma unpinned_task: "host_opt ro = None \<Longrightarrow> host (buildTask env c ro) = None"
  by (auto simp: buildTask_def split: prod.splits)

lemma retries_buildTask: "retries (buildTask env c ro) = 0"
  by (auto simp: buildTask_def split: prod.splits)

lemma retrying_request:
  assumes "queue c = []" "inflight c = []" "host_opt ro = None" "shouldRetry c"
    and "activeTasks c < maxTasks c" "activeHost c < length (hosts c)"
    and "activeDirtyHost c < length (hosts c)"
  shows "retrying 0 (length (hosts c)) (effectiveMax c) (settlements (trace c))
           (length (sent_hosts (trace c))) (step env (Request ro) c)"
proof -
  let ?c0 = "c\<lparr>queue := queue c @ [buildTask env c ro]\<rparr>"
  have "retrying 0 (length (hosts c)) (effectiveMax c) (settlements (trace c))
           (length (sent_hosts (trace c))) (runQueue env ?c0)"
    using assms
    by (intro retrying_dispatch [where t = "buildTask env c ro"])
       (simp_all add: unpinned_task retries_buildTask effectiveMax_upd)
  then show ?thesis by (simp add: request_def)
qed

lemma retrying_exec:
  assumes "queue c = []" "inflight c = []" "host_opt ro = None" "shouldRetry c"
    and "activeTasks c < maxTasks c" "activeHost c < length (hosts c)"
    and "activeDirtyHost c < length (hosts c)"
  shows "k \<le> nat (effectiveMax c) \<Longrightarrow>
         retrying k (length (hosts c)) (effectiveMax c) (settlements (trace c))
           (length (sent_hosts (trace c)))
           (exec env (Request ro # replicate k (Complete 0 (Err connection_refused))) c)"
proof (induction k)
  case 0
  from retrying_request [OF assms, of env] show ?case by (simp add: exec_def)
next
  case (Suc k)
  then have lt: "int k < effectiveMax c" by simp
  from Suc have ih: "retrying k (length (hosts c)) (effectiveMax c) (settlements (trace c))
           (length (sent_hosts (trace c)))
           (exec env (Request ro # replicate k (Complete 0 (Err connection_refused))) c)"
    by simp
  have "Request ro # replicate (Suc k) (Complete 0 (Err connection_refused))
      = (Request ro # replicate k (Complete 0 (Err connection_refused)))
        @ [Complete 0 (Err connection_refused)]"
    by (simp add: replicate_append_same)
  then show ?case
    using retrying_step [OF ih lt, of env] by (simp only: exec_snoc)
qed

text \<open>
  Claim C2: when a task with no host set fails with a refused connection (a system error
  with syscall \<open>connect\<close> and code \<open>ECONNREFUSED\<close>) and retries are on, the callback puts
  the task at the tail of the queue with one more retry counted as long as its retries
  are below the bound, and rejects its promise otherwise. The bound is \<open>maxRetries\<close> when
  that is positive and the number of hosts minus one when it is 0. So a request to an idle
  pool whose every transport is refused is sent again after each of the first \<open>bound\<close>
  refusals and is rejected by the next one, after \<open>bound + 1\<close> transport calls. A pool
  made with \<open>maxRetries: false\<close> never retries: in every state it reaches, a transport
  error rejects the promise.
\<close>

theorem connection_refused_retries:
  "(host t = None \<and> shouldRetry c \<longrightarrow>
      (retries t < effectiveMax c \<longrightarrow>
         queue (handle env c t h (Err connection_refused)) = queue c @ [t\<lparr>retries := retries t + 1\<rparr>]
         \<and> trace (handle env c t h (Err connection_refused)) = trace c)
      \<and> (\<not> retries t < effectiveMax c \<longrightarrow>
         queue (handle env c t h (Err connection_refused)) = queue c
         \<and> trace (handle env c t h (Err connection_refused))
             = trace c @ [Settled t (RejectTransport connection_refused)]))
   \<and> (0 < maxRetries c \<longrightarrow> effectiveMax c = maxRetries c)
   \<and> (maxRetries c = 0 \<longrightarrow> effectiveMax c = int (length (hosts c)) - 1)
   \<and> (queue c = [] \<and> inflight c = [] \<and> host_opt ro = None \<and> shouldRetry c
       \<and> activeTasks c < maxTasks c \<and> activeHost c < length (hosts c)
       \<and> activeDirtyHost c < length (hosts c) \<longrightarrow>
      (\<forall>k \<le> nat (effectiveMax c).
          settlements (trace (exec env
              (Request ro # replicate k (Complete 0 (Err connection_refused))) c))
            = settlements (trace c)
          \<and> length (sent_hosts (trace (exec env
              (Request ro # replicate k (Complete 0 (Err connection_refused))) c)))
            = length (sent_hosts (trace c)) + k + 1
          \<and> map (\<lambda>p. retries (fst p)) (inflight (exec env
              (Request ro # replicate k (Complete 0 (Err connection_refused))) c)) = [int k])
      \<and> settlements (trace (exec env
            (Request ro # replicate (nat (effectiveMax c) + 1) (Complete 0 (Err connection_refused))) c))
          = settlements (trace c) @ [RejectTransport connection_refused]
      \<and> length (sent_hosts (trace (exec env
            (Request ro # replicate (nat (effectiveMax c) + 1) (Complete 0 (Err connection_refused))) c)))
          = length (sent_hosts (trace c)) + nat (effectiveMax c) + 1
      \<and> inflight (exec env
            (Request ro # replicate (nat (effectiveMax c) + 1) (Complete 0 (Err connection_refused))) c) = []
      \<and> queue (exec env
            (Request ro # replicate (nat (effectiveMax c) + 1) (Complete 0 (Err connection_refused))) c) = [])
   \<and> (cfg_maxRetries cfg = Some RetriesFalse \<longrightarrow>
        \<not> shouldRetry (exec env evs (new_Connection env u1 u2 cfg))
        \<and> queue (handle env (exec env evs (new_Connection env u1 u2 cfg)) t h (Err err))
            = queue (exec env evs (new_Connection env u1 u2 cfg))
        \<and> trace (handle env (exec env evs (new_Connection env u1 u2 cfg)) t h (Err err))
            = trace (exec env evs (new_Connection env u1 u2 cfg)) @ [Settled t (RejectTransport err)])"
proof (intro conjI impI allI)
  assume "host t = None \<and> shouldRetry c" and "retries t < effectiveMax c"
  then show "queue (handle env c t h (Err connection_refused)) = queue c @ [t\<lparr>retries := retries t + 1\<rparr>]"
    and "trace (handle env c t h (Err connection_refused)) = trace c"
    by (simp_all add: handle_refused_retry)
next
  assume "host t = None \<and> shouldRetry c" and "\<not> retries t < effectiveMax c"
  then show "queue (handle env c t h (Err connection_refused)) = queue c"
    and "trace (handle env c t h (Err connection_refused))
             = trace c @ [Settled t (RejectTransport connection_refused)]"
    by (simp_all add: handle_refused_reject)
next
  assume "0 < maxRetries c"
  then show "effectiveMax c = maxRetries c" by (simp add: effectiveMax_def)
next
  assume "maxRetries c = 0"
  then show "effectiveMax c = int (length (hosts c)) - 1" by (simp add: effectiveMax_def)
next
  fix k
  assume idle: "queue c = [] \<and> inflight c = [] \<and> host_opt ro = None \<and> shouldRetry c
       \<and> activeTasks c < maxTasks c \<and> activeHost c < length (hosts c)
       \<and> activeDirtyHost c < length (hosts c)"
    and k: "k \<le> nat (effectiveMax c)"
  let ?c = "exec env (Request ro # replicate k (Complete 0 (Err connection_refused))) c"
  from idle have "retrying k (length (hosts c)) (effectiveMax c) (settlements (trace c))
           (length (sent_hosts (trace c))) ?c"
    using k by (intro retrying_exec) simp_all
  then show "settlements (trace ?c) = settlements (trace c)"
    and "length (sent_hosts (trace ?c)) = length (sent_hosts (trace c)) + k + 1"
    and "map (\<lambda>p. retries (fst p)) (inflight ?c) = [int k]"
    by (auto simp: retrying_def)
next
  assume idle: "queue c = [] \<and> inflight c = [] \<and> host_opt ro = None \<and> shouldRetry c
       \<and> activeTasks c < maxTasks c \<and> activeHost c < length (hosts c)
       \<and> activeDirtyHost c < length (hosts c)"
  let ?k = "nat (effectiveMax c)"
  let ?r = "Complete 0 (Err connection_refused)"
  let ?c = "exec env (Request ro # replicate ?k ?r) c"
  from idle have r: "retrying ?k (length (hosts c)) (effectiveMax c) (settlements (trace c))
           (length (sent_hosts (trace c))) ?c"
    by (intro retrying_exec) simp_all
  have nl: "\<not> int ?k < effectiveMax c" by simp
  have e: "exec env (Request ro # replicate (?k + 1) ?r) c = step env ?r ?c"
    using exec_snoc [of env "Request ro # replicate ?k ?r" ?r c]
    by (simp add: replicate_append_same)
  from retrying_end [OF r nl, of env]
  show "settlements (trace (exec env (Request ro # replicate (?k + 1) ?r) c))
          = settlements (trace c) @ [RejectTransport connection_refused]"
    and "length (sent_hosts (trace (exec env (Request ro # replicate (?k + 1) ?r) c)))
          = length (sent_hosts (trace c)) + ?k + 1"
    and "inflight (exec env (Request ro # replicate (?k + 1) ?r) c) = []"
    and "queue (exec env (Request ro # replicate (?k + 1) ?r) c) = []"
    unfolding e by simp_all
next
  assume f: "cfg_maxRetries cfg = Some RetriesFalse"
  let ?c = "exec env evs (new_Connection env u1 u2 cfg)"
  have "settings ?c = settings (new_Connection env u1 u2 cfg)" by (rule settings_exec)
  with f have n: "\<not> shouldRetry ?c"
    by (simp add: settings_new_Connection) (simp add: settings_def)
  then show "\<not> shouldRetry ?c" .
  from handle_no_retry [OF n, of env t h err]
  show "queue (handle env ?c t h (Err err)) = queue ?c"
    and "trace (handle env ?c t h (Err err)) = trace ?c @ [Settled t (RejectTransport err)]"
    by simp_all
qed

text \<open>
  Three hosts and \<open>maxRetries\<close> 0: the bound is 2; after two refusals the task is pending
  with two retries and no promise has ended, and the third refusal, after three transport
  calls, rejects the promise. With \<open>maxRetries: false\<close> the first refusal rejects it.
\<close>

theorem connection_refused_retries_witness:
  "host example_task = None \<and> shouldRetry (three_hosts NONE)
   \<and> retries example_task < effectiveMax (three_hosts NONE)
   \<and> \<not> retries (example_task\<lparr>retries := 2\<rparr>) < effectiveMax (three_hosts NONE)
   \<and> maxRetries (three_hosts NONE) = 0 \<and> length (hosts (three_hosts NONE)) = 3
   \<and> effectiveMax (three_hosts NONE) = 2
   \<and> queue (three_hosts NONE) = [] \<and> inflight (three_hosts NONE) = []
   \<and> host_opt plain_request = None
   \<and> activeTasks (three_hosts NONE) < maxTasks (three_hosts NONE)
   \<and> activeHost (three_hosts NONE) < length (hosts (three_hosts NONE))
   \<and> activeDirtyHost (three_hosts NONE) < length (hosts (three_hosts NONE))
   \<and> map retries (queue (handle example_env (three_hosts NONE) example_task 0
         (Err connection_refused))) = [1]
   \<and> settlements (trace (handle example_env (three_hosts NONE) (example_task\<lparr>retries := 2\<rparr>) 0
         (Err connection_refused))) = [RejectTransport connection_refused]
   \<and> settlements (trace (exec example_env
         [Request plain_request, Complete 0 (Err connection_refused),
          Complete 0 (Err connection_refused)] (three_hosts NONE))) = []
   \<and> map (\<lambda>p. retries (fst p)) (inflight (exec example_env
         [Request plain_request, Complete 0 (Err connection_refused),
          Complete 0 (Err connection_refused)] (three_hosts NONE))) = [2]
   \<and> settlements (trace (exec example_env
         [Request plain_request, Complete 0 (Err connection_refused),
          Complete 0 (Err connection_refused), Complete 0 (Err connection_refused)]
         (three_hosts NONE))) = [RejectTransport connection_refused]
   \<and> length (sent_hosts (trace (exec example_env
         [Request plain_request, Complete 0 (Err connection_refused),
          Complete 0 (Err connection_refused), Complete 0 (Err connection_refused)]
         (three_hosts NONE)))) = 3
   \<and> cfg_maxRetries no_retry_config = Some RetriesFalse
   \<and> \<not> shouldRetry (new_Connection example_env 0 0 no_retry_config)
   \<and> settlements (trace (handle example_env (new_Connection example_env 0 0 no_retry_config)
         example_task 0 (Err connection_refused))) = [RejectTransport connection_refused]"
proof -
  let ?c = "three_hosts NONE"
  let ?r = "Complete 0 (Err connection_refused)"
  let ?t2 = "example_task\<lparr>retries := 2\<rparr>"
  let ?n = "new_Connection example_env 0 0 no_retry_config"
  have t1: "host example_task = None" and t2: "retries example_task = 0"
    and t3: "host ?t2 = None"
    by (simp_all add: example_task_def buildTask_def plain_request_def split: prod.splits)
  have c1: "shouldRetry ?c" and c2: "maxRetries ?c = 0" and c3: "length (hosts ?c) = 3"
    and c4: "queue ?c = []" and c5: "inflight ?c = []"
    and c6: "activeTasks ?c < maxTasks ?c" and c7: "activeHost ?c < length (hosts ?c)"
    and c8: "activeDirtyHost ?c < length (hosts ?c)" and c9: "trace ?c = []"
    by (simp_all add: scenario_defs run_defs example_defs)
  have r0: "host_opt plain_request = None" by (simp add: plain_request_def)
  have f1: "cfg_maxRetries no_retry_config = Some RetriesFalse"
    by (simp add: no_retry_config_def)
  have n1: "trace ?n = []"
    by (simp add: no_retry_config_def run_defs example_defs)
  note a = connection_refused_retries [of example_task ?c example_env 0 plain_request no_retry_config "[]" 0 0
      connection_refused]
  note b = connection_refused_retries [of ?t2 ?c example_env 0 plain_request no_retry_config "[]" 0 0
      connection_refused]
  from a c2 c3 have e: "effectiveMax ?c = 2" by simp
  then have k: "nat (effectiveMax ?c) = 2" by simp
  have lt: "retries example_task < effectiveMax ?c" by (simp add: t2 e)
  have ge: "\<not> retries ?t2 < effectiveMax ?c" by (simp add: e)
  from a t1 c1 lt have "queue (handle example_env ?c example_task 0 (Err connection_refused))
      = queue ?c @ [example_task\<lparr>retries := retries example_task + 1\<rparr>]" by blast
  then have g1: "map retries (queue (handle example_env ?c example_task 0
      (Err connection_refused))) = [1]"
    by (simp add: c4 t2)
  from b t3 c1 ge have "trace (handle example_env ?c ?t2 0 (Err connection_refused))
      = trace ?c @ [Settled ?t2 (RejectTransport connection_refused)]" by blast
  then have g2: "settlements (trace (handle example_env ?c ?t2 0 (Err connection_refused)))
      = [RejectTransport connection_refused]"
    by (simp add: c9)
  have idle: "queue ?c = [] \<and> inflight ?c = [] \<and> host_opt plain_request = None \<and> shouldRetry ?c
       \<and> activeTasks ?c < maxTasks ?c \<and> activeHost ?c < length (hosts ?c)
       \<and> activeDirtyHost ?c < length (hosts ?c)"
    using c1 c4 c5 c6 c7 c8 r0 by blast
  have two: "replicate 2 ?r = [?r, ?r]" and three: "replicate 3 ?r = [?r, ?r, ?r]"
    by (simp_all add: numeral_2_eq_2 numeral_3_eq_3)
  from a idle have "\<forall>k \<le> nat (effectiveMax ?c).
          settlements (trace (exec example_env (Request plain_request # replicate k ?r) ?c))
            = settlements (trace ?c)
          \<and> length (sent_hosts (trace (exec example_env (Request plain_request # replicate k ?r) ?c)))
            = length (sent_hosts (trace ?c)) + k + 1
          \<and> map (\<lambda>p. retries (fst p)) (inflight (exec example_env
              (Request plain_request # replicate k ?r) ?c)) = [int k]"
    by blast
  then have "settlements (trace (exec example_env (Request plain_request # replicate 2 ?r) ?c))
            = settlements (trace ?c)
          \<and> map (\<lambda>p. retries (fst p)) (inflight (exec example_env
              (Request plain_request # replicate 2 ?r) ?c)) = [int 2]"
    using k by simp
  then have g3: "settlements (trace (exec example_env [Request plain_request, ?r, ?r] ?c)) = []"
    and g4: "map (\<lambda>p. retries (fst p)) (inflight (exec example_env
        [Request plain_request, ?r, ?r] ?c)) = [2]"
    by (simp_all add: two c9)
  from a idle have "settlements (trace (exec example_env
            (Request plain_request # replicate (nat (effectiveMax ?c) + 1) ?r) ?c))
          = settlements (trace ?c) @ [RejectTransport connection_refused]
      \<and> length (sent_hosts (trace (exec example_env
            (Request plain_request # replicate (nat (effectiveMax ?c) + 1) ?r) ?c)))
          = length (sent_hosts (trace ?c)) + nat (effectiveMax ?c) + 1"
    by blast
  then have g5: "settlements (trace (exec example_env [Request plain_request, ?r, ?r, ?r] ?c))
      = [RejectTransport connection_refused]"
    and g6: "length (sent_hosts (trace (exec example_env [Request plain_request, ?r, ?r, ?r] ?c))) = 3"
    by (simp_all add: k three c9)
  from a f1 have g7: "\<not> shouldRetry (exec example_env [] ?n)"
    and "trace (handle example_env (exec example_env [] ?n) example_task 0 (Err connection_refused))
            = trace (exec example_env [] ?n) @ [Settled example_task (RejectTransport connection_refused)]"
    by blast+
  then have g8: "\<not> shouldRetry ?n"
    and g9: "settlements (trace (handle example_env ?n example_task 0 (Err connection_refused)))
      = [RejectTransport connection_refused]"
    by (simp_all add: exec_def n1)
  from t1 c1 lt ge c2 c3 e c4 c5 r0 c6 c7 c8 g1 g2 g3 g4 g5 g6 f1 g8 g9
  show ?thesis by blast
qed

end
